theory Spec2Isabelle
  imports Main
begin

section \<open>Python values, strings and exceptions\<close>

text \<open>
  A Python \<open>str\<close> is a sequence of Unicode code points: \<open>len\<close> and slicing count code
  points. It is modelled as the list of its code points. \<open>ascii\<close> gives the code points of
  an ASCII literal; the Chinese literals of the source are written out as code points.
\<close>

type_synonym ustr = "nat list"

definition ascii :: "string \<Rightarrow> ustr" where
  "ascii s = map of_char s"

text \<open>
  The values that cross the program's boundaries (the JSON body of a request, the value
  \<open>page.evaluate\<close> hands back, the JSON body of a response). A float is held as the text
  Python's \<open>str()\<close> gives for it; a dict is held as its items.
\<close>

datatype pyval =
    PNone
  | PBool bool
  | PInt int
  | PFloat ustr
  | PStr ustr
  | PList "pyval list"
  | PDict "(ustr \<times> pyval) list"

text \<open>An exception object: \<open>type(e).__name__\<close> and \<open>str(e)\<close>.\<close>

datatype exn = Raised (etype: ustr) (emsg: ustr)

text \<open>\<open>raise Exception(msg)\<close>\<close>

definition Exception :: "ustr \<Rightarrow> exn" where
  "Exception msg = Raised (ascii ''Exception'') msg"

text \<open>Truth value testing (\<open>if v\<close>, \<open>not v\<close>, \<open>a or b\<close>).\<close>

fun truthy :: "pyval \<Rightarrow> bool" where
  "truthy PNone = False"
| "truthy (PBool b) = b"
| "truthy (PInt i) = (i \<noteq> 0)"
| "truthy (PFloat t) = (t \<noteq> ascii ''0.0'' \<and> t \<noteq> ascii ''-0.0'')"
| "truthy (PStr s) = (s \<noteq> [])"
| "truthy (PList xs) = (xs \<noteq> [])"
| "truthy (PDict kvs) = (kvs \<noteq> [])"

definition py_or :: "pyval \<Rightarrow> pyval \<Rightarrow> pyval" where
  "py_or a b = (if truthy a then a else b)"

text \<open>\<open>d.get(k)\<close> and \<open>d.get(k, default)\<close> on a dict.\<close>

definition dict_get_default :: "(ustr \<times> pyval) list \<Rightarrow> ustr \<Rightarrow> pyval \<Rightarrow> pyval" where
  "dict_get_default d k dflt = (case map_of d k of None \<Rightarrow> dflt | Some v \<Rightarrow> v)"

definition dict_get :: "(ustr \<times> pyval) list \<Rightarrow> ustr \<Rightarrow> pyval" where
  "dict_get d k = dict_get_default d k PNone"

text \<open>\<open>type(v).__name__\<close>\<close>

fun type_name :: "pyval \<Rightarrow> ustr" where
  "type_name PNone = ascii ''NoneType''"
| "type_name (PBool b) = ascii ''bool''"
| "type_name (PInt i) = ascii ''int''"
| "type_name (PFloat t) = ascii ''float''"
| "type_name (PStr s) = ascii ''str''"
| "type_name (PList xs) = ascii ''list''"
| "type_name (PDict kvs) = ascii ''dict''"

text \<open>\<open>str(type(v))\<close>, as the f-string \<open>{type(encrypt_params)}\<close> renders it.\<close>

definition type_str :: "pyval \<Rightarrow> ustr" where
  "type_str v = ascii ''<class '' @ [39] @ type_name v @ [39] @ ascii ''>''"

text \<open>Decimal rendering of an integer, as \<open>str\<close> gives it.\<close>

function str_nat :: "nat \<Rightarrow> ustr" where
  "str_nat n = (if n < 10 then [48 + n] else str_nat (n div 10) @ [48 + n mod 10])"
  by pat_completeness auto
termination
  by (relation "measure id") auto

definition str_int :: "int \<Rightarrow> ustr" where
  "str_int i = (if i < 0 then 45 # str_nat (nat (- i)) else str_nat (nat i))"

text \<open>
  What the Python runtime does where the source leaves it to the interpreter and the
  result depends on nothing in the repository: \<open>repr\<close> of a list or a dict (string
  quoting and escaping), and the exception a dict raises when sliced (a \<open>TypeError\<close>
  before Python 3.12, a \<open>KeyError\<close> since), and \<open>str\<close> of the error object that
  Flask hands to the handler registered for 500 when an exception \<open>e\<close> escapes.
\<close>

record runtime =
  container_repr :: "pyval \<Rightarrow> ustr"
  dict_slice_exn :: exn
  unhandled_str :: "exn \<Rightarrow> ustr"

text \<open>\<open>str(v)\<close>\<close>

fun py_str :: "runtime \<Rightarrow> pyval \<Rightarrow> ustr" where
  "py_str rt PNone = ascii ''None''"
| "py_str rt (PBool b) = (if b then ascii ''True'' else ascii ''False'')"
| "py_str rt (PInt i) = str_int i"
| "py_str rt (PFloat t) = t"
| "py_str rt (PStr s) = s"
| "py_str rt (PList xs) = container_repr rt (PList xs)"
| "py_str rt (PDict kvs) = container_repr rt (PDict kvs)"

text \<open>
  \<open>v[:50]\<close>: a string and a list can be sliced; every other value raises. The
  result of the slice is only logged, so the model keeps whether it raises.
\<close>

fun slice_raises :: "runtime \<Rightarrow> pyval \<Rightarrow> exn option" where
  "slice_raises rt (PStr s) = None"
| "slice_raises rt (PList xs) = None"
| "slice_raises rt (PDict kvs) = Some (dict_slice_exn rt)"
| "slice_raises rt v =
     Some (Raised (ascii ''TypeError'')
        ([39] @ type_name v @ [39] @ ascii '' object is not subscriptable''))"

section \<open>Process state and effects\<close>

text \<open>
  The module's globals, the file \<open>stealth.min.js\<close> of the working directory (its
  content when it exists) and the trace of the effects performed so far on the
  browser, the network, the file system and the clock. Logging is not an effect of
  the model. Pauses are in milliseconds.
\<close>

type_synonym handle = nat

datatype event =
    HttpGet ustr
  | WriteFile ustr
  | StartPlaywright
  | Launch
  | NewContext
  | AddInitScript
  | NewPage
  | Goto ustr
  | ReadCookies
  | Evaluate handle pyval pyval
  | Sleep nat

record state =
  playwright_instance :: "handle option"
  browser_context :: "handle option"
  context_page :: "handle option"
  global_a1 :: ustr
  stealth_file :: "ustr option"
  trace :: "event list"

definition emit :: "event \<Rightarrow> state \<Rightarrow> state" where
  "emit e s = s\<lparr>trace := trace s @ [e]\<rparr>"

section \<open>The signing engine\<close>

definition msg_not_dict :: ustr where
  "msg_not_dict =
     [31614, 21517, 20989, 25968, 36820, 22238, 20540, 19981, 26159, 23383, 20856, 58, 32]"

definition msg_sign_failed :: ustr where
  "msg_sign_failed =
     [31614, 21517, 22833, 36133, 65288, 37325, 35797, 49, 48, 27425, 65289, 58, 32]"

definition msg_exhausted :: ustr where
  "msg_exhausted =
     [37325, 35797, 20102, 36825, 20040, 22810, 27425, 36824, 26159, 26080, 27861, 31614,
      21517, 25104, 21151]"

text \<open>
  Lines 210-232 of \<open>generate_sign\<close>: the check that the value is a dict, the extraction
  of the two fields under either casing, the result dict, and the log line that slices
  \<open>x_s\<close> when it is truthy.
\<close>

definition shape_result :: "runtime \<Rightarrow> pyval \<Rightarrow> exn + pyval" where
  "shape_result rt encrypt_params =
     (case encrypt_params of
        PDict d \<Rightarrow>
          (let x_s = py_or (py_or (dict_get d (ascii ''X-s'')) (dict_get d (ascii ''x-s'')))
                       (PStr []);
               x_t = py_or (py_or (dict_get d (ascii ''X-t'')) (dict_get d (ascii ''x-t'')))
                       (PStr []);
               result = PDict [(ascii ''x-s'', x_s), (ascii ''x-t'', PStr (py_str rt x_t))]
           in case (if truthy x_s then slice_raises rt x_s else None) of
                Some e \<Rightarrow> Inl e
              | None \<Rightarrow> Inr result)
      | _ \<Rightarrow> Inl (Exception (msg_not_dict @ type_str encrypt_params)))"

text \<open>
  The body of the \<open>try\<close> for one attempt. \<open>ev attempt\<close> is what the page does with the
  evaluation of that attempt: it raises, or it hands back a value. With no page,
  \<open>context_page.evaluate\<close> is an attribute lookup on \<open>None\<close>.
\<close>

definition attempt_body ::
  "runtime \<Rightarrow> (nat \<Rightarrow> exn + pyval) \<Rightarrow> pyval \<Rightarrow> pyval \<Rightarrow> nat \<Rightarrow> state \<Rightarrow> (exn + pyval) \<times> state" where
  "attempt_body rt ev uri data attempt s =
     (case context_page s of
        None \<Rightarrow>
          (Inl (Raised (ascii ''AttributeError'')
                 ([39] @ ascii ''NoneType'' @ [39] @ ascii '' object has no attribute ''
                  @ [39] @ ascii ''evaluate'' @ [39])), s)
      | Some page \<Rightarrow>
          (let s' = emit (Evaluate page uri data) s
           in case ev attempt of
                Inl e \<Rightarrow> (Inl e, s')
              | Inr encrypt_params \<Rightarrow> (shape_result rt encrypt_params, s')))"

text \<open>The loop \<open>for attempt in range(10)\<close> with its \<open>except\<close> clause.\<close>

fun sign_attempts ::
  "runtime \<Rightarrow> (nat \<Rightarrow> exn + pyval) \<Rightarrow> pyval \<Rightarrow> pyval \<Rightarrow> nat list \<Rightarrow> state \<Rightarrow> (exn + pyval) \<times> state" where
  "sign_attempts rt ev uri data [] s = (Inl (Exception msg_exhausted), s)"
| "sign_attempts rt ev uri data (attempt # rest) s =
     (case attempt_body rt ev uri data attempt s of
        (Inr result, s') \<Rightarrow> (Inr result, s')
      | (Inl e, s') \<Rightarrow>
          if attempt = 9 then (Inl (Exception (msg_sign_failed @ emsg e)), s')
          else sign_attempts rt ev uri data rest (emit (Sleep 500) s'))"

definition generate_sign ::
  "runtime \<Rightarrow> (nat \<Rightarrow> exn + pyval) \<Rightarrow> pyval \<Rightarrow> pyval \<Rightarrow> pyval \<Rightarrow> pyval \<Rightarrow> pyval \<Rightarrow> state
     \<Rightarrow> (exn + pyval) \<times> state" where
  "generate_sign rt ev uri data a1 web_session web_id s =
     sign_attempts rt ev uri data [0..<10] s"

section \<open>The asset fetcher\<close>

text \<open>
  What the world outside the process does during initialisation: \<open>http_get url\<close> is
  \<open>requests.get(url, timeout=30)\<close> followed by \<open>raise_for_status()\<close> (an exception, or
  \<open>response.text\<close>); \<open>write_result\<close> is \<open>None\<close> when the file is written, and otherwise
  the exception raised together with what is left at the path; the other fields are the
  outcomes of the Playwright calls, in the order \<open>init_browser\<close> makes them. A cookie is
  the pair of its \<open>name\<close> and \<open>value\<close>.
\<close>

record world =
  http_get :: "ustr \<Rightarrow> exn + ustr"
  write_result :: "(exn \<times> ustr option) option"
  start_result :: "exn + handle"
  launch_result :: "exn option"
  new_context_result :: "exn + handle"
  add_init_script_result :: "exn option"
  new_page_result :: "exn + handle"
  goto_result :: "exn option"
  cookies_result :: "exn + (ustr \<times> ustr) list"

definition stealth_js_path :: ustr where
  "stealth_js_path = ascii ''stealth.min.js''"

definition cdn_urls :: "ustr list" where
  "cdn_urls =
     [ascii ''https://cdn.jsdelivr.net/gh/requireCool/stealth.min.js/stealth.min.js'',
      ascii ''https://fastly.jsdelivr.net/gh/requireCool/stealth.min.js/stealth.min.js'',
      ascii ''https://raw.githubusercontent.com/requireCool/stealth.min.js/main/stealth.min.js'']"

text \<open>
  The loop over the sources. Every exception of the \<open>try\<close> body is caught and the loop
  goes on to the next source; the index is used for logging only.
\<close>

fun try_sources :: "world \<Rightarrow> ustr list \<Rightarrow> state \<Rightarrow> ustr option \<times> state" where
  "try_sources w [] s = (None, s)"
| "try_sources w (url # rest) s =
     (let s1 = emit (HttpGet url) s
      in case http_get w url of
           Inl e \<Rightarrow> try_sources w rest s1
         | Inr body \<Rightarrow>
             if length body < 100 then try_sources w rest s1
             else (let s2 = emit (WriteFile body) s1
                   in case write_result w of
                        Some (e, left) \<Rightarrow> try_sources w rest (s2\<lparr>stealth_file := left\<rparr>)
                      | None \<Rightarrow> (Some stealth_js_path, s2\<lparr>stealth_file := Some body\<rparr>)))"

definition download_stealth_js :: "world \<Rightarrow> state \<Rightarrow> ustr option \<times> state" where
  "download_stealth_js w s =
     (if stealth_file s \<noteq> None then (Some stealth_js_path, s)
      else try_sources w cdn_urls s)"

section \<open>The browser session\<close>

definition home_url :: ustr where
  "home_url = ascii ''https://www.xiaohongshu.com''"

text \<open>Step 9: the first cookie named \<open>a1\<close> gives \<open>global_a1\<close>.\<close>

definition capture_a1 :: "(ustr \<times> ustr) list \<Rightarrow> state \<Rightarrow> state" where
  "capture_a1 cookies s =
     (case find (\<lambda>cookie. fst cookie = ascii ''a1'') cookies of
        Some cookie \<Rightarrow> s\<lparr>global_a1 := snd cookie\<rparr>
      | None \<Rightarrow> s)"

text \<open>Steps 6 to 9, from \<open>new_page()\<close> on. The page global is assigned before \<open>goto\<close>.\<close>

definition open_page :: "world \<Rightarrow> state \<Rightarrow> exn option \<times> state" where
  "open_page w s =
     (let s1 = emit NewPage s
      in case new_page_result w of
           Inl e \<Rightarrow> (Some e, s1)
         | Inr page \<Rightarrow>
             (let s2 = emit (Goto home_url) (s1\<lparr>context_page := Some page\<rparr>)
              in case goto_result w of
                   Some e \<Rightarrow> (Some e, s2)
                 | None \<Rightarrow>
                     (let s3 = emit ReadCookies (emit (Sleep 1000) s2)
                      in case cookies_result w of
                           Inl e \<Rightarrow> (Some e, s3)
                         | Inr cookies \<Rightarrow> (None, capture_a1 cookies s3))))"

text \<open>
  \<open>init_browser\<close>: \<open>None\<close> when it returns, \<open>Some e\<close> when it raises \<open>e\<close> (the \<open>except\<close>
  clause logs and raises again). Each global is assigned as soon as its call returns.
\<close>

definition init_browser :: "world \<Rightarrow> state \<Rightarrow> exn option \<times> state" where
  "init_browser w s =
     (case download_stealth_js w s of (path, s0) \<Rightarrow>
        (let s1 = emit StartPlaywright s0
         in case start_result w of
              Inl e \<Rightarrow> (Some e, s1)
            | Inr pw \<Rightarrow>
                (let s2 = emit Launch (s1\<lparr>playwright_instance := Some pw\<rparr>)
                 in case launch_result w of
                      Some e \<Rightarrow> (Some e, s2)
                    | None \<Rightarrow>
                        (let s3 = emit NewContext s2
                         in case new_context_result w of
                              Inl e \<Rightarrow> (Some e, s3)
                            | Inr ctx \<Rightarrow>
                                (let s4 = s3\<lparr>browser_context := Some ctx\<rparr>
                                 in if path \<noteq> None then
                                      (let s5 = emit AddInitScript s4
                                       in case add_init_script_result w of
                                            Some e \<Rightarrow> (Some e, s5)
                                          | None \<Rightarrow> open_page w s5)
                                    else open_page w s4)))))"

text \<open>The hook registered with \<open>@app.before_request\<close>.\<close>

definition ensure_browser :: "world \<Rightarrow> state \<Rightarrow> exn option \<times> state" where
  "ensure_browser w s =
     (if context_page s = None then init_browser w s else (None, s))"

section \<open>The HTTP layer\<close>

text \<open>A response is the JSON body and the status code.\<close>

type_synonym response = "pyval \<times> nat"

definition msg_hint :: ustr where
  "msg_hint =
     [21363, 20415, 20570, 20102, 37325, 35797, 65292, 36824, 26159, 26377, 21487, 33021,
      20250, 36935, 21040, 31614, 21517, 22833, 36133, 30340, 24773, 20917, 65292, 35831,
      37325, 35797]"

text \<open>\<open>health_check\<close>; \<open>now\<close> is the value of \<open>time.time()\<close>.\<close>

definition health_check :: "pyval \<Rightarrow> state \<Rightarrow> response" where
  "health_check now s =
     (let browser_ready = (context_page s \<noteq> None)
      in (PDict
            [(ascii ''status'',
                PStr (if browser_ready then ascii ''healthy'' else ascii ''initializing'')),
             (ascii ''browser_ready'', PBool browser_ready),
             (ascii ''a1'',
                PStr (if global_a1 s \<noteq> [] then take 20 (global_a1 s) @ ascii ''...'' else [])),
             (ascii ''timestamp'', now)],
          if browser_ready then 200 else 503))"

text \<open>The two 400 answers and the \<open>except\<close> clause of \<open>sign_endpoint\<close>.\<close>

definition bad_request :: "ustr \<Rightarrow> response" where
  "bad_request msg =
     (PDict [(ascii ''error'', PStr msg), (ascii ''success'', PBool False)], 400)"

definition sign_failure :: "exn \<Rightarrow> response" where
  "sign_failure e =
     (PDict [(ascii ''error'', PStr (emsg e)),
             (ascii ''error_type'', PStr (etype e)),
             (ascii ''success'', PBool False),
             (ascii ''hint'', PStr msg_hint)], 500)"

text \<open>
  \<open>sign_endpoint\<close>. \<open>json\<close> is what \<open>request.get_json()\<close> does for the request: it raises,
  or it returns the parsed body (\<open>None\<close> for no JSON value). A truthy body that is not a
  dict has no \<open>get\<close>.
\<close>

definition sign_endpoint ::
  "runtime \<Rightarrow> (nat \<Rightarrow> exn + pyval) \<Rightarrow> exn + pyval \<Rightarrow> state \<Rightarrow> response \<times> state" where
  "sign_endpoint rt ev json s =
     (case json of
        Inl e \<Rightarrow> (sign_failure e, s)
      | Inr json_data \<Rightarrow>
          if \<not> truthy json_data then (bad_request (ascii ''Request body is required''), s)
          else
            (case json_data of
               PDict d \<Rightarrow>
                 (let uri = dict_get_default d (ascii ''uri'') (PStr []);
                      data = dict_get d (ascii ''data'');
                      a1 = dict_get_default d (ascii ''a1'') (PStr []);
                      web_session = dict_get_default d (ascii ''web_session'') (PStr []);
                      web_id = dict_get_default d (ascii ''web_id'') (PStr [])
                  in if \<not> truthy uri then
                       (bad_request (ascii ''uri parameter is required''), s)
                     else
                       (case generate_sign rt ev uri data a1 web_session web_id s of
                          (Inr result, s') \<Rightarrow> ((result, 200), s')
                        | (Inl e, s') \<Rightarrow> (sign_failure e, s')))
             | _ \<Rightarrow>
                 (sign_failure
                    (Raised (ascii ''AttributeError'')
                       ([39] @ type_name json_data @ [39] @ ascii '' object has no attribute ''
                        @ [39] @ ascii ''get'' @ [39])), s)))"

definition get_a1 :: "state \<Rightarrow> response" where
  "get_a1 s = (PDict [(ascii ''a1'', PStr (global_a1 s))], 200)"

definition web_a1 :: "state \<Rightarrow> response" where
  "web_a1 s = (PDict [(ascii ''web_a1'', PStr (global_a1 s))], 200)"

text \<open>The handler registered with \<open>@app.errorhandler(500)\<close>; \<open>msg\<close> is \<open>str(e)\<close>.\<close>

definition internal_error :: "ustr \<Rightarrow> response" where
  "internal_error msg =
     (PDict [(ascii ''error'', PStr (ascii ''Internal server error'')),
             (ascii ''message'', PStr msg)], 500)"

text \<open>
  One request through the application, for the routes that read or use the session:
  Flask runs the \<open>before_request\<close> hook first; when the hook raises, the view is not
  called and the handler for 500 answers; when it returns, the view of the route
  answers. The route \<open>/\<close> and the handler for 404 give fixed bodies and are left out.
\<close>

datatype request =
    GetHealth pyval
  | PostSign "nat \<Rightarrow> exn + pyval" "exn + pyval"
  | GetA1
  | GetWebA1

fun dispatch :: "runtime \<Rightarrow> request \<Rightarrow> state \<Rightarrow> response \<times> state" where
  "dispatch rt (GetHealth now) s = (health_check now s, s)"
| "dispatch rt (PostSign ev json) s = sign_endpoint rt ev json s"
| "dispatch rt GetA1 s = (get_a1 s, s)"
| "dispatch rt GetWebA1 s = (web_a1 s, s)"

definition handle_request :: "runtime \<Rightarrow> world \<Rightarrow> request \<Rightarrow> state \<Rightarrow> response \<times> state" where
  "handle_request rt w req s =
     (case ensure_browser w s of
        (Some e, s') \<Rightarrow> (internal_error (unhandled_str rt e), s')
      | (None, s') \<Rightarrow> dispatch rt req s')"

section \<open>Vocabulary of the properties\<close>

text \<open>Whether an event is an evaluation in the page.\<close>

fun is_evaluate :: "event \<Rightarrow> bool" where
  "is_evaluate (Evaluate p u d) = True"
| "is_evaluate e = False"

text \<open>Whether an event belongs to session bootstrap (start, launch, context, page, navigation, cookies).\<close>

fun is_browser_event :: "event \<Rightarrow> bool" where
  "is_browser_event StartPlaywright = True"
| "is_browser_event Launch = True"
| "is_browser_event NewContext = True"
| "is_browser_event AddInitScript = True"
| "is_browser_event NewPage = True"
| "is_browser_event (Goto u) = True"
| "is_browser_event ReadCookies = True"
| "is_browser_event e = False"

fun is_http_get :: "event \<Rightarrow> bool" where
  "is_http_get (HttpGet u) = True"
| "is_http_get e = False"

text \<open>Whether a value is a Python \<open>str\<close>.\<close>

fun is_str :: "pyval \<Rightarrow> bool" where
  "is_str (PStr s) = True"
| "is_str v = False"

text \<open>The value \<open>generate_sign\<close> extracts for a field of \<open>d\<close> under its two casings.\<close>

definition field_of :: "(ustr \<times> pyval) list \<Rightarrow> ustr \<Rightarrow> ustr \<Rightarrow> pyval" where
  "field_of d upper lower = py_or (py_or (dict_get d upper) (dict_get d lower)) (PStr [])"

text \<open>
  Whether a mirror gives nothing usable: the request raises, or the body is shorter than
  100 characters.
\<close>

definition mirror_unusable :: "world \<Rightarrow> ustr \<Rightarrow> bool" where
  "mirror_unusable w url = (case http_get w url of Inl e \<Rightarrow> True | Inr body \<Rightarrow> length body < 100)"

text \<open>
  The server loop: the requests are handled one after the other, each with what the
  world does during it.
\<close>

fun serve :: "runtime \<Rightarrow> (world \<times> request) list \<Rightarrow> state \<Rightarrow> state" where
  "serve rt [] s = s"
| "serve rt ((w, req) # rest) s = serve rt rest (snd (handle_request rt w req s))"

text \<open>
  The effects of one attempt of \<open>generate_sign\<close>, and of a call whose first \<open>k\<close>
  attempts fail: each failed attempt is followed by the pause of half a second, the
  last attempt by nothing.
\<close>

definition attempt_events :: "handle option \<Rightarrow> pyval \<Rightarrow> pyval \<Rightarrow> event list" where
  "attempt_events page uri data =
     (case page of None \<Rightarrow> [] | Some p \<Rightarrow> [Evaluate p uri data])"

definition retry_events :: "handle option \<Rightarrow> pyval \<Rightarrow> pyval \<Rightarrow> nat \<Rightarrow> event list" where
  "retry_events page uri data k =
     concat (replicate k (attempt_events page uri data @ [Sleep 500]))
     @ attempt_events page uri data"

text \<open>
  Concrete inputs: the state of a fresh process (the globals as the module assigns them,
  no asset file yet), a state with a live session, a runtime, and worlds in which
  initialisation goes through or one of its steps raises. The runtime gives the text of
  Werkzeug's \<open>InternalServerError\<close> and the \<open>KeyError\<close> of Python 3.12; its \<open>container_repr\<close>
  is a stand-in that no statement below evaluates.
\<close>

definition initial_state :: state where
  "initial_state =
     \<lparr>playwright_instance = None, browser_context = None, context_page = None,
      global_a1 = [], stealth_file = None, trace = []\<rparr>"

definition ready_state :: state where
  "ready_state =
     \<lparr>playwright_instance = Some 1, browser_context = Some 2, context_page = Some 3,
      global_a1 = ascii ''a1cookie'', stealth_file = Some (ascii ''js''), trace = []\<rparr>"

definition demo_runtime :: runtime where
  "demo_runtime =
     \<lparr>container_repr = (\<lambda>v. ascii ''[...]''),
      dict_slice_exn = Raised (ascii ''KeyError'') (ascii ''slice(None, 50, None)''),
      unhandled_str =
        (\<lambda>e. ascii ''500 Internal Server Error: The server encountered an internal error and was unable to complete your request. Either the server is overloaded or there is an error in the application.'')\<rparr>"

definition boom :: exn where
  "boom = Raised (ascii ''Error'') (ascii ''boom'')"

definition world_ok :: world where
  "world_ok =
     \<lparr>http_get = (\<lambda>url. Inl boom), write_result = None, start_result = Inr 1,
      launch_result = None, new_context_result = Inr 2, add_init_script_result = None,
      new_page_result = Inr 3, goto_result = None,
      cookies_result = Inr [(ascii ''webId'', ascii ''w''), (ascii ''a1'', ascii ''a1cookie'')]\<rparr>"

definition world_goto_fails :: world where
  "world_goto_fails = world_ok\<lparr>goto_result := Some boom\<rparr>"

definition world_launch_fails :: world where
  "world_launch_fails = world_ok\<lparr>launch_result := Some boom\<rparr>"

definition world_start_fails :: world where
  "world_start_fails = world_ok\<lparr>start_result := Inl boom\<rparr>"

definition world_small_bodies :: world where
  "world_small_bodies = world_ok\<lparr>http_get := (\<lambda>url. Inr (ascii ''<html>404</html>''))\<rparr>"

text \<open>Page behaviours: every evaluation raises; the first two raise and the third answers.\<close>

definition always_fails :: "nat \<Rightarrow> exn + pyval" where
  "always_fails i = Inl boom"

definition answers_list :: "nat \<Rightarrow> exn + pyval" where
  "answers_list i =
     Inr (PDict [(ascii ''X-s'', PList [PInt 1]), (ascii ''X-t'', PStr (ascii ''1700''))])"

definition answers_empty :: "nat \<Rightarrow> exn + pyval" where
  "answers_empty i = Inr (PDict [])"

definition third_time_lucky :: "nat \<Rightarrow> exn + pyval" where
  "third_time_lucky i =
     (if i < 2 then Inl boom
      else Inr (PDict [(ascii ''X-s'', PStr (ascii ''XYZ'')), (ascii ''X-t'', PInt 1700)]))"

section \<open>The retry loop of the signing engine\<close>

lemma snd_attempt_body:
  "snd (attempt_body rt ev uri data i s) = s\<lparr>trace := trace s @ attempt_events (context_page s) uri data\<rparr>"
  by (simp add: attempt_body_def attempt_events_def emit_def Let_def split: option.splits sum.splits)

lemma fst_attempt_body_cong:
  "context_page s' = context_page s \<Longrightarrow>
   fst (attempt_body rt ev uri data i s') = fst (attempt_body rt ev uri data i s)"
  by (simp add: attempt_body_def Let_def split: option.splits sum.splits)

lemma fst_attempt_body_trace:
  "fst (attempt_body rt ev uri data i (s\<lparr>trace := t\<rparr>)) = fst (attempt_body rt ev uri data i s)"
  by (rule fst_attempt_body_cong) simp

lemma sign_attempts_all_fail:
  "n \<le> 9 \<Longrightarrow> \<forall>i. n \<le> i \<and> i < 10 \<longrightarrow> isl (fst (attempt_body rt ev uri data i s)) \<Longrightarrow>
   sign_attempts rt ev uri data [n..<10] s =
     (Inl (Exception (msg_sign_failed @ emsg (projl (fst (attempt_body rt ev uri data 9 s))))),
      s\<lparr>trace := trace s @ retry_events (context_page s) uri data (9 - n)\<rparr>)"
proof (induction "9 - n" arbitrary: n s)
  case 0
  then have n: "n = 9" by simp
  have l: "[9..<10] = [9::nat]" by (simp add: upt_rec)
  from "0.prems"(2) n have f: "isl (fst (attempt_body rt ev uri data 9 s))" by simp
  then obtain e where e: "fst (attempt_body rt ev uri data 9 s) = Inl e"
    by (cases "fst (attempt_body rt ev uri data 9 s)") auto
  obtain r s' where b: "attempt_body rt ev uri data 9 s = (r, s')" by force
  with e have r: "r = Inl e" by simp
  from b snd_attempt_body[of rt ev uri data 9 s] have s': "s' = s\<lparr>trace := trace s @ attempt_events (context_page s) uri data\<rparr>" by simp
  show ?case unfolding n l using b r s' e by (simp add: retry_events_def)
next
  case (Suc m)
  then have n: "n < 9" "n < 10" "n \<noteq> 9" by simp_all
  have l: "[n..<10] = n # [Suc n..<10]" using n by (simp add: upt_conv_Cons)
  from Suc.prems(2) n have f: "isl (fst (attempt_body rt ev uri data n s))" by simp
  then obtain e where e: "fst (attempt_body rt ev uri data n s) = Inl e"
    by (cases "fst (attempt_body rt ev uri data n s)") auto
  obtain r s' where b: "attempt_body rt ev uri data n s = (r, s')" by force
  with e have r: "r = Inl e" by simp
  from b snd_attempt_body[of rt ev uri data n s] have s': "s' = s\<lparr>trace := trace s @ attempt_events (context_page s) uri data\<rparr>" by simp
  let ?s2 = "emit (Sleep 500) s'"
  have cp: "context_page ?s2 = context_page s" using s' by (simp add: emit_def)
  have m: "m = 9 - Suc n" using Suc.hyps(2) by simp
  have h: "\<forall>i. Suc n \<le> i \<and> i < 10 \<longrightarrow> isl (fst (attempt_body rt ev uri data i ?s2))"
    using Suc.prems(2) fst_attempt_body_cong[OF cp] by simp
  have le: "Suc n \<le> 9" using n by simp
  note IH = Suc.hyps(1)[OF m le h]
  have k: "9 - n = Suc (9 - Suc n)" using n by simp
  show ?case unfolding l using b r IH n
    by (simp add: fst_attempt_body_trace cp s' emit_def retry_events_def k)
qed


lemma attempt_body_split:
  obtains r where "attempt_body rt ev uri data i s =
     (r, s\<lparr>trace := trace s @ attempt_events (context_page s) uri data\<rparr>)"
    and "r = fst (attempt_body rt ev uri data i s)"
  using snd_attempt_body[of rt ev uri data i s]
  by (cases "attempt_body rt ev uri data i s") simp

lemma sign_attempts_first_success:
  "n \<le> k \<Longrightarrow> k < 10 \<Longrightarrow>
   \<forall>i. n \<le> i \<and> i < k \<longrightarrow> isl (fst (attempt_body rt ev uri data i s)) \<Longrightarrow>
   fst (attempt_body rt ev uri data k s) = Inr r \<Longrightarrow>
   sign_attempts rt ev uri data [n..<10] s =
     (Inr r, s\<lparr>trace := trace s @ retry_events (context_page s) uri data (k - n)\<rparr>)"
proof (induction "k - n" arbitrary: n s)
  case 0
  then have n: "n = k" by simp
  have l: "[k..<10] = k # [Suc k..<10]" using "0.prems"(2) by (simp add: upt_conv_Cons)
  obtain r' where b: "attempt_body rt ev uri data k s =
     (r', s\<lparr>trace := trace s @ attempt_events (context_page s) uri data\<rparr>)"
    and r': "r' = fst (attempt_body rt ev uri data k s)"
    by (rule attempt_body_split)
  show ?case unfolding n l using b r' "0.prems"(4) by (simp add: retry_events_def)
next
  case (Suc m)
  then have n: "n < k" "n < 10" "n \<noteq> 9" by simp_all
  have l: "[n..<10] = n # [Suc n..<10]" using n by (simp add: upt_conv_Cons)
  obtain r' where b: "attempt_body rt ev uri data n s =
     (r', s\<lparr>trace := trace s @ attempt_events (context_page s) uri data\<rparr>)"
    and r': "r' = fst (attempt_body rt ev uri data n s)"
    by (rule attempt_body_split)
  from Suc.prems(3) n have "isl r'" unfolding r' by simp
  then obtain e where e: "r' = Inl e" by (cases r') auto
  let ?s2 = "emit (Sleep 500) (s\<lparr>trace := trace s @ attempt_events (context_page s) uri data\<rparr>)"
  have cp: "context_page ?s2 = context_page s" by (simp add: emit_def)
  have m: "m = k - Suc n" using Suc.hyps(2) by simp
  have le: "Suc n \<le> k" using n by simp
  have h: "\<forall>i. Suc n \<le> i \<and> i < k \<longrightarrow> isl (fst (attempt_body rt ev uri data i ?s2))"
    using Suc.prems(3) fst_attempt_body_cong[OF cp] by simp
  have g: "fst (attempt_body rt ev uri data k ?s2) = Inr r"
    using Suc.prems(4) fst_attempt_body_cong[OF cp] by simp
  note IH = Suc.hyps(1)[OF m le Suc.prems(2) h g]
  have kk: "k - n = Suc (k - Suc n)" using n by simp
  show ?case unfolding l using b e IH n
    by (simp add: cp emit_def retry_events_def kk)
qed

lemma sign_attempts_frame:
  "\<exists>t. snd (sign_attempts rt ev uri data as s) = s\<lparr>trace := trace s @ t\<rparr> \<and>
       set t \<subseteq> insert (Sleep 500) (set (attempt_events (context_page s) uri data)) \<and>
       length (filter is_evaluate t) \<le> length as"
proof (induction as arbitrary: s)
  case Nil
  show ?case by (rule exI[of _ "[]"]) simp
next
  case (Cons a as)
  obtain r' where b: "attempt_body rt ev uri data a s =
     (r', s\<lparr>trace := trace s @ attempt_events (context_page s) uri data\<rparr>)"
    by (rule attempt_body_split)
  let ?s1 = "s\<lparr>trace := trace s @ attempt_events (context_page s) uri data\<rparr>"
  have ae: "length (filter is_evaluate (attempt_events (context_page s) uri data)) \<le> 1"
    by (simp add: attempt_events_def split: option.splits)
  show ?case
  proof (cases "isl r' \<and> a \<noteq> 9")
    case False
    then have "snd (sign_attempts rt ev uri data (a # as) s) = ?s1"
      using b by (cases r') auto
    then show ?thesis using ae
      by (intro exI[of _ "attempt_events (context_page s) uri data"]) auto
  next
    case True
    then obtain e where e: "r' = Inl e" by (cases r') auto
    let ?s2 = "emit (Sleep 500) ?s1"
    from Cons.IH[of ?s2] obtain t where
      t: "snd (sign_attempts rt ev uri data as ?s2) = ?s2\<lparr>trace := trace ?s2 @ t\<rparr>"
         "set t \<subseteq> insert (Sleep 500) (set (attempt_events (context_page ?s2) uri data))"
         "length (filter is_evaluate t) \<le> length as"
      by blast
    have eq: "sign_attempts rt ev uri data (a # as) s = sign_attempts rt ev uri data as ?s2"
      using b e True by simp
    show ?thesis
      apply (rule exI[of _ "attempt_events (context_page s) uri data @ [Sleep 500] @ t"])
      using t ae unfolding eq by (auto simp: emit_def)
  qed
qed

lemma generate_sign_all_fail:
  assumes "\<forall>i<10. isl (fst (attempt_body rt ev uri data i s))"
  shows "generate_sign rt ev uri data a1 ws wid s =
     (Inl (Exception (msg_sign_failed @ emsg (projl (fst (attempt_body rt ev uri data 9 s))))),
      s\<lparr>trace := trace s @ retry_events (context_page s) uri data 9\<rparr>)"
  using sign_attempts_all_fail[of 0 rt ev uri data s] assms
  by (simp add: generate_sign_def)

lemma generate_sign_first_success:
  assumes "k < 10" "\<forall>i<k. isl (fst (attempt_body rt ev uri data i s))"
    "fst (attempt_body rt ev uri data k s) = Inr r"
  shows "generate_sign rt ev uri data a1 ws wid s =
     (Inr r, s\<lparr>trace := trace s @ retry_events (context_page s) uri data k\<rparr>)"
  using sign_attempts_first_success[of 0 k rt ev uri data s r] assms
  by (simp add: generate_sign_def)

lemma generate_sign_frame:
  "\<exists>t. snd (generate_sign rt ev uri data a1 ws wid s) = s\<lparr>trace := trace s @ t\<rparr> \<and>
       set t \<subseteq> insert (Sleep 500) (set (attempt_events (context_page s) uri data)) \<and>
       length (filter is_evaluate t) \<le> 10"
  using sign_attempts_frame[of rt ev uri data "[0..<10]" s]
  by (simp add: generate_sign_def)

lemma sign_endpoint_calls_engine:
  assumes "truthy (dict_get_default d (ascii ''uri'') (PStr []))"
  shows "sign_endpoint rt ev (Inr (PDict d)) s =
     (case generate_sign rt ev (dict_get_default d (ascii ''uri'') (PStr []))
             (dict_get d (ascii ''data'')) (dict_get_default d (ascii ''a1'') (PStr []))
             (dict_get_default d (ascii ''web_session'') (PStr []))
             (dict_get_default d (ascii ''web_id'') (PStr [])) s of
        (Inr result, s') \<Rightarrow> ((result, 200), s')
      | (Inl e, s') \<Rightarrow> (sign_failure e, s'))"
proof -
  have "d \<noteq> []" using assms by (auto simp: dict_get_default_def)
  then show ?thesis using assms by (simp add: sign_endpoint_def Let_def)
qed

text \<open>
  C1: a call of \<open>generate_sign\<close> evaluates the signing function at most 10 times. When
  the first \<open>k\<close> attempts raise and the next one answers, the effects of the call are
  \<open>k\<close> times an evaluation followed by the pause of 500 ms, then the last evaluation:
  every failed attempt with attempts remaining is followed by the pause, and nothing
  follows the last attempt. When all 10 attempts raise, the effects are 9 such pairs and
  the tenth evaluation, \<open>generate_sign\<close> raises an \<open>Exception\<close> whose message is the fixed
  prefix followed by the message of the tenth attempt's error, and \<open>sign_endpoint\<close>
  answers 500 with that message in the \<open>error\<close> field.
\<close>

theorem generate_sign_retry_policy:
  "length (filter is_evaluate (trace (snd (generate_sign rt ev uri data a1 ws wid s))))
     \<le> length (filter is_evaluate (trace s)) + 10
   \<and> (\<forall>k<10. (\<forall>i<k. isl (fst (attempt_body rt ev uri data i s))) \<and>
         \<not> isl (fst (attempt_body rt ev uri data k s)) \<longrightarrow>
         generate_sign rt ev uri data a1 ws wid s =
           (fst (attempt_body rt ev uri data k s),
            s\<lparr>trace := trace s @ retry_events (context_page s) uri data k\<rparr>))
   \<and> ((\<forall>i<10. isl (fst (attempt_body rt ev uri data i s))) \<longrightarrow>
         generate_sign rt ev uri data a1 ws wid s =
           (Inl (Exception
                  (msg_sign_failed @ emsg (projl (fst (attempt_body rt ev uri data 9 s))))),
            s\<lparr>trace := trace s @ retry_events (context_page s) uri data 9\<rparr>)
         \<and> (uri = dict_get_default d (ascii ''uri'') (PStr []) \<and> truthy uri \<and>
            data = dict_get d (ascii ''data'') \<longrightarrow>
              fst (sign_endpoint rt ev (Inr (PDict d)) s) =
                (PDict [(ascii ''error'',
                           PStr (msg_sign_failed
                                 @ emsg (projl (fst (attempt_body rt ev uri data 9 s))))),
                        (ascii ''error_type'', PStr (ascii ''Exception'')),
                        (ascii ''success'', PBool False),
                        (ascii ''hint'', PStr msg_hint)], 500)))"
proof (intro conjI allI impI)
  obtain t where t: "snd (generate_sign rt ev uri data a1 ws wid s) = s\<lparr>trace := trace s @ t\<rparr>"
    "length (filter is_evaluate t) \<le> 10"
    using generate_sign_frame[of rt ev uri data a1 ws wid s] by blast
  then show "length (filter is_evaluate (trace (snd (generate_sign rt ev uri data a1 ws wid s))))
     \<le> length (filter is_evaluate (trace s)) + 10" by simp
next
  fix k assume k: "k < 10"
    and h: "(\<forall>i<k. isl (fst (attempt_body rt ev uri data i s))) \<and>
         \<not> isl (fst (attempt_body rt ev uri data k s))"
  then obtain r where r: "fst (attempt_body rt ev uri data k s) = Inr r"
    by (cases "fst (attempt_body rt ev uri data k s)") auto
  show "generate_sign rt ev uri data a1 ws wid s =
           (fst (attempt_body rt ev uri data k s),
            s\<lparr>trace := trace s @ retry_events (context_page s) uri data k\<rparr>)"
    using generate_sign_first_success[OF k _ r] h r by simp
next
  assume h: "\<forall>i<10. isl (fst (attempt_body rt ev uri data i s))"
  show "generate_sign rt ev uri data a1 ws wid s =
           (Inl (Exception
                  (msg_sign_failed @ emsg (projl (fst (attempt_body rt ev uri data 9 s))))),
            s\<lparr>trace := trace s @ retry_events (context_page s) uri data 9\<rparr>)"
    by (rule generate_sign_all_fail[OF h])
next
  assume h: "\<forall>i<10. isl (fst (attempt_body rt ev uri data i s))"
    and u: "uri = dict_get_default d (ascii ''uri'') (PStr []) \<and> truthy uri \<and>
            data = dict_get d (ascii ''data'')"
  from u have tr: "truthy (dict_get_default d (ascii ''uri'') (PStr []))" by blast
  show "fst (sign_endpoint rt ev (Inr (PDict d)) s) =
                (PDict [(ascii ''error'',
                           PStr (msg_sign_failed
                                 @ emsg (projl (fst (attempt_body rt ev uri data 9 s))))),
                        (ascii ''error_type'', PStr (ascii ''Exception'')),
                        (ascii ''success'', PBool False),
                        (ascii ''hint'', PStr msg_hint)], 500)"
    unfolding sign_endpoint_calls_engine[OF tr]
    using generate_sign_all_fail[OF h] u
    by (simp add: sign_failure_def Exception_def)
qed

theorem generate_sign_retry_policy_witness:
  "generate_sign demo_runtime always_fails (PStr (ascii ''/api'')) PNone (PStr []) (PStr []) (PStr [])
       ready_state =
       (Inl (Exception (msg_sign_failed @ ascii ''boom'')),
        ready_state\<lparr>trace := retry_events (Some 3) (PStr (ascii ''/api'')) PNone 9\<rparr>)
   \<and> fst (sign_endpoint demo_runtime always_fails
            (Inr (PDict [(ascii ''uri'', PStr (ascii ''/api''))])) ready_state) =
       (PDict [(ascii ''error'', PStr (msg_sign_failed @ ascii ''boom'')),
               (ascii ''error_type'', PStr (ascii ''Exception'')),
               (ascii ''success'', PBool False),
               (ascii ''hint'', PStr msg_hint)], 500)
   \<and> \<not> isl (fst (attempt_body demo_runtime third_time_lucky (PStr (ascii ''/api'')) PNone 2 ready_state))
   \<and> snd (generate_sign demo_runtime third_time_lucky (PStr (ascii ''/api'')) PNone (PStr []) (PStr []) (PStr [])
       ready_state) =
        ready_state\<lparr>trace := retry_events (Some 3) (PStr (ascii ''/api'')) PNone 2\<rparr>"
proof -
  let ?u = "PStr (ascii ''/api'')"
  let ?d = "[(ascii ''uri'', ?u)]"
  have a: "\<And>i. fst (attempt_body demo_runtime always_fails ?u PNone i ready_state) = Inl boom"
    by (simp add: attempt_body_def ready_state_def always_fails_def Let_def)
  have h1: "\<forall>i<10. isl (fst (attempt_body demo_runtime always_fails ?u PNone i ready_state))"
    by (simp add: a)
  have b: "\<And>i. i < 2 \<Longrightarrow> fst (attempt_body demo_runtime third_time_lucky ?u PNone i ready_state) = Inl boom"
    by (simp add: attempt_body_def ready_state_def third_time_lucky_def Let_def)
  have h2: "\<forall>i<2. isl (fst (attempt_body demo_runtime third_time_lucky ?u PNone i ready_state))"
    by (simp add: b)
  have h3: "\<not> isl (fst (attempt_body demo_runtime third_time_lucky ?u PNone 2 ready_state))"
    by (simp add: attempt_body_def ready_state_def third_time_lucky_def Let_def shape_result_def
        py_or_def dict_get_def dict_get_default_def ascii_def)
  have u: "?u = dict_get_default ?d (ascii ''uri'') (PStr []) \<and> truthy ?u \<and>
            PNone = dict_get ?d (ascii ''data'')"
    by (simp add: dict_get_def dict_get_default_def ascii_def)
  have rs: "context_page ready_state = Some 3" "trace ready_state = []"
    by (simp_all add: ready_state_def)
  note T1 = generate_sign_retry_policy[of demo_runtime always_fails ?u PNone "PStr []" "PStr []" "PStr []" ready_state ?d]
  note T2 = generate_sign_retry_policy[of demo_runtime third_time_lucky ?u PNone "PStr []" "PStr []" "PStr []" ready_state ?d]
  have c1: "generate_sign demo_runtime always_fails ?u PNone (PStr []) (PStr []) (PStr []) ready_state =
       (Inl (Exception (msg_sign_failed @ ascii ''boom'')),
        ready_state\<lparr>trace := retry_events (Some 3) ?u PNone 9\<rparr>)"
    using T1 h1 by (simp add: a boom_def rs)
  have c2: "fst (sign_endpoint demo_runtime always_fails (Inr (PDict ?d)) ready_state) =
       (PDict [(ascii ''error'', PStr (msg_sign_failed @ ascii ''boom'')),
               (ascii ''error_type'', PStr (ascii ''Exception'')),
               (ascii ''success'', PBool False),
               (ascii ''hint'', PStr msg_hint)], 500)"
    using T1 h1 u by (simp add: a boom_def)
  have c3: "snd (generate_sign demo_runtime third_time_lucky ?u PNone (PStr []) (PStr []) (PStr []) ready_state) =
        ready_state\<lparr>trace := retry_events (Some 3) ?u PNone 2\<rparr>"
  proof -
    from T2 have A: "\<And>k. k < 10 \<Longrightarrow>
        (\<forall>i<k. isl (fst (attempt_body demo_runtime third_time_lucky ?u PNone i ready_state))) \<and>
        \<not> isl (fst (attempt_body demo_runtime third_time_lucky ?u PNone k ready_state)) \<Longrightarrow>
        generate_sign demo_runtime third_time_lucky ?u PNone (PStr []) (PStr []) (PStr []) ready_state =
          (fst (attempt_body demo_runtime third_time_lucky ?u PNone k ready_state),
           ready_state\<lparr>trace := trace ready_state @ retry_events (context_page ready_state) ?u PNone k\<rparr>)"
      by blast
    from A[of 2] h2 h3 show ?thesis by (simp add: rs)
  qed
  show ?thesis using c1 c2 h3 c3 by blast
qed

section \<open>The shape of a signing result\<close>

lemma shape_result_dict:
  "shape_result rt (PDict d) =
     (case (if truthy (field_of d (ascii ''X-s'') (ascii ''x-s''))
            then slice_raises rt (field_of d (ascii ''X-s'') (ascii ''x-s'')) else None) of
        Some e \<Rightarrow> Inl e
      | None \<Rightarrow> Inr (PDict [(ascii ''x-s'', field_of d (ascii ''X-s'') (ascii ''x-s'')),
                           (ascii ''x-t'', PStr (py_str rt (field_of d (ascii ''X-t'') (ascii ''x-t''))))]))"
  unfolding shape_result_def field_of_def Let_def by simp

lemma shape_result_Inr:
  assumes "shape_result rt v = Inr r"
  shows "\<exists>d. v = PDict d \<and>
     r = PDict [(ascii ''x-s'', field_of d (ascii ''X-s'') (ascii ''x-s'')),
                (ascii ''x-t'', PStr (py_str rt (field_of d (ascii ''X-t'') (ascii ''x-t''))))] \<and>
     (truthy (field_of d (ascii ''X-s'') (ascii ''x-s'')) \<longrightarrow>
        slice_raises rt (field_of d (ascii ''X-s'') (ascii ''x-s'')) = None)"
proof (cases v)
  case (PDict d)
  with assms show ?thesis
    by (auto simp: shape_result_dict split: option.splits if_splits)
qed (use assms in \<open>simp_all add: shape_result_def\<close>)

lemma sliceable_cases:
  "slice_raises rt v = None \<Longrightarrow> is_str v \<or> (\<exists>xs. v = PList xs)"
  by (cases v) simp_all

lemma field_of_falsy_str:
  "\<not> truthy (field_of d a b) \<Longrightarrow> field_of d a b = PStr []"
  by (simp add: field_of_def py_or_def split: if_splits)

lemma field_of_absent:
  "map_of d a = None \<Longrightarrow> map_of d b = None \<Longrightarrow> field_of d a b = PStr []"
  by (simp add: field_of_def py_or_def dict_get_def dict_get_default_def)

lemma field_shape:
  assumes "truthy (field_of d a b) \<longrightarrow> slice_raises rt (field_of d a b) = None"
  shows "is_str (field_of d a b) \<or> (\<exists>xs. xs \<noteq> [] \<and> field_of d a b = PList xs)"
proof (cases "truthy (field_of d a b)")
  case False
  then show ?thesis using field_of_falsy_str[of d a b] by simp
next
  case True
  with assms have "slice_raises rt (field_of d a b) = None" by simp
  from sliceable_cases[OF this] True show ?thesis by auto
qed

lemma field_of_str:
  assumes "is_str (dict_get d a) \<or> \<not> truthy (dict_get d a)"
      and "is_str (dict_get d b) \<or> \<not> truthy (dict_get d b)"
  shows "is_str (field_of d a b)"
  using assms by (auto simp: field_of_def py_or_def)

lemma sign_attempts_success_from:
  "fst (sign_attempts rt ev uri data as s) = Inr r \<Longrightarrow>
   \<exists>k v. k \<in> set as \<and> ev k = Inr v \<and> shape_result rt v = Inr r"
proof (induction as arbitrary: s)
  case Nil
  then show ?case by simp
next
  case (Cons a as)
  show ?case
  proof (cases "attempt_body rt ev uri data a s")
    case (Pair r' s')
    show ?thesis
    proof (cases r')
      case (Inr x)
      with Pair Cons.prems have rx: "x = r" by simp
      from Pair Inr have "\<exists>v. ev a = Inr v \<and> shape_result rt v = Inr x"
        by (auto simp: attempt_body_def Let_def split: option.splits sum.splits)
      with rx show ?thesis by auto
    next
      case (Inl e)
      with Pair Cons.prems have "a \<noteq> 9" by (auto split: if_splits)
      with Pair Inl Cons.prems
      have "fst (sign_attempts rt ev uri data as (emit (Sleep 500) s')) = Inr r" by simp
      from Cons.IH[OF this] show ?thesis by auto
    qed
  qed
qed

lemma generate_sign_success_from:
  assumes "fst (generate_sign rt ev uri data a1 ws wid s) = Inr r"
  shows "\<exists>k v. k < 10 \<and> ev k = Inr v \<and> shape_result rt v = Inr r"
  using sign_attempts_success_from[of rt ev uri data "[0..<10]" s r] assms
  by (auto simp: generate_sign_def)

text \<open>
  C4, as the code has it: when \<open>generate_sign\<close> returns, one of its at most 10 evaluations
  handed back a dict \<open>d\<close>, and the result is the dict with exactly the two keys \<open>x-s\<close>
  and \<open>x-t\<close>, in that order and in lower case, whichever casing \<open>d\<close> used (a dict with
  the upper-case keys and the dict with the lower-case keys give the same result). The
  value under \<open>x-t\<close> is always a string. The value under \<open>x-s\<close> is the value found in
  \<open>d\<close>, not converted: a string or a non-empty list, and a string whenever the values
  of \<open>d\<close> under both casings of the key are strings or falsy (an absent key counts as
  \<open>None\<close>).
\<close>

theorem generate_sign_result_shape:
  "(fst (generate_sign rt ev uri data a1 ws wid s) = Inr r \<longrightarrow>
      (\<exists>k d. k < 10 \<and> ev k = Inr (PDict d) \<and>
         r = PDict [(ascii ''x-s'', field_of d (ascii ''X-s'') (ascii ''x-s'')),
                    (ascii ''x-t'', PStr (py_str rt (field_of d (ascii ''X-t'') (ascii ''x-t''))))] \<and>
         (is_str (field_of d (ascii ''X-s'') (ascii ''x-s'')) \<or>
          (\<exists>xs. xs \<noteq> [] \<and> field_of d (ascii ''X-s'') (ascii ''x-s'') = PList xs)) \<and>
         ((is_str (dict_get d (ascii ''X-s'')) \<or> \<not> truthy (dict_get d (ascii ''X-s''))) \<and>
          (is_str (dict_get d (ascii ''x-s'')) \<or> \<not> truthy (dict_get d (ascii ''x-s'')))
            \<longrightarrow> is_str (field_of d (ascii ''X-s'') (ascii ''x-s'')))))
   \<and> shape_result rt (PDict [(ascii ''X-s'', v), (ascii ''X-t'', w)]) =
       shape_result rt (PDict [(ascii ''x-s'', v), (ascii ''x-t'', w)])"
proof (intro conjI impI)
  assume a: "fst (generate_sign rt ev uri data a1 ws wid s) = Inr r"
  from generate_sign_success_from[OF a] obtain k v where
    k: "k < 10" "ev k = Inr v" "shape_result rt v = Inr r" by blast
  from shape_result_Inr[OF k(3)] obtain d where
    d: "v = PDict d"
       "r = PDict [(ascii ''x-s'', field_of d (ascii ''X-s'') (ascii ''x-s'')),
                (ascii ''x-t'', PStr (py_str rt (field_of d (ascii ''X-t'') (ascii ''x-t''))))]"
       "truthy (field_of d (ascii ''X-s'') (ascii ''x-s'')) \<longrightarrow>
        slice_raises rt (field_of d (ascii ''X-s'') (ascii ''x-s'')) = None"
    by blast
  show "\<exists>k d. k < 10 \<and> ev k = Inr (PDict d) \<and>
         r = PDict [(ascii ''x-s'', field_of d (ascii ''X-s'') (ascii ''x-s'')),
                    (ascii ''x-t'', PStr (py_str rt (field_of d (ascii ''X-t'') (ascii ''x-t''))))] \<and>
         (is_str (field_of d (ascii ''X-s'') (ascii ''x-s'')) \<or>
          (\<exists>xs. xs \<noteq> [] \<and> field_of d (ascii ''X-s'') (ascii ''x-s'') = PList xs)) \<and>
         ((is_str (dict_get d (ascii ''X-s'')) \<or> \<not> truthy (dict_get d (ascii ''X-s''))) \<and>
          (is_str (dict_get d (ascii ''x-s'')) \<or> \<not> truthy (dict_get d (ascii ''x-s'')))
            \<longrightarrow> is_str (field_of d (ascii ''X-s'') (ascii ''x-s'')))"
    using k(1,2) d field_shape[OF d(3)] field_of_str[of d "ascii ''X-s''" "ascii ''x-s''"]
    by (intro exI[of _ k] exI[of _ d]) blast
next
  show "shape_result rt (PDict [(ascii ''X-s'', v), (ascii ''X-t'', w)]) =
       shape_result rt (PDict [(ascii ''x-s'', v), (ascii ''x-t'', w)])"
  proof -
    have e1: "field_of [(ascii ''X-s'', v), (ascii ''X-t'', w)] (ascii ''X-s'') (ascii ''x-s'') =
              field_of [(ascii ''x-s'', v), (ascii ''x-t'', w)] (ascii ''X-s'') (ascii ''x-s'')"
      by (simp add: field_of_def py_or_def dict_get_def dict_get_default_def ascii_def)
    have e2: "field_of [(ascii ''X-s'', v), (ascii ''X-t'', w)] (ascii ''X-t'') (ascii ''x-t'') =
              field_of [(ascii ''x-s'', v), (ascii ''x-t'', w)] (ascii ''X-t'') (ascii ''x-t'')"
      by (simp add: field_of_def py_or_def dict_get_def dict_get_default_def ascii_def)
    show ?thesis unfolding shape_result_dict e1 e2 by (rule refl)
  qed
qed

lemma ready_attempt:
  "fst (attempt_body rt ev uri data i ready_state) =
     (case ev i of Inl e \<Rightarrow> Inl e | Inr v \<Rightarrow> shape_result rt v)"
  by (simp add: attempt_body_def ready_state_def Let_def split: sum.splits)

theorem generate_sign_result_shape_witness:
  "fst (generate_sign demo_runtime third_time_lucky (PStr (ascii ''/api'')) PNone (PStr []) (PStr [])
         (PStr []) ready_state) =
     Inr (PDict [(ascii ''x-s'', PStr (ascii ''XYZ'')), (ascii ''x-t'', PStr (str_int 1700))])
   \<and> (\<exists>k d. k < 10 \<and> third_time_lucky k = Inr (PDict d) \<and>
         field_of d (ascii ''X-s'') (ascii ''x-s'') = PStr (ascii ''XYZ'') \<and>
         py_str demo_runtime (field_of d (ascii ''X-t'') (ascii ''x-t'')) = str_int 1700)"
proof -
  let ?u = "PStr (ascii ''/api'')"
  let ?r = "PDict [(ascii ''x-s'', PStr (ascii ''XYZ'')), (ascii ''x-t'', PStr (str_int 1700))]"
  have sh: "shape_result demo_runtime
      (PDict [(ascii ''X-s'', PStr (ascii ''XYZ'')), (ascii ''X-t'', PInt 1700)]) = Inr ?r"
    unfolding shape_result_def Let_def
    by (simp add: py_or_def dict_get_def dict_get_default_def ascii_def)
  have h2: "\<forall>i<2. isl (fst (attempt_body demo_runtime third_time_lucky ?u PNone i ready_state))"
    by (simp add: ready_attempt third_time_lucky_def)
  have h3: "fst (attempt_body demo_runtime third_time_lucky ?u PNone 2 ready_state) = Inr ?r"
    by (simp add: ready_attempt third_time_lucky_def sh)
  have g: "fst (generate_sign demo_runtime third_time_lucky ?u PNone (PStr []) (PStr []) (PStr [])
      ready_state) = Inr ?r"
    using generate_sign_first_success[of 2, OF _ h2 h3] by simp
  from generate_sign_result_shape[of demo_runtime third_time_lucky ?u PNone "PStr []" "PStr []"
      "PStr []" ready_state ?r] g
  obtain k d where kd: "k < 10" "third_time_lucky k = Inr (PDict d)"
    "?r = PDict [(ascii ''x-s'', field_of d (ascii ''X-s'') (ascii ''x-s'')),
                 (ascii ''x-t'', PStr (py_str demo_runtime (field_of d (ascii ''X-t'') (ascii ''x-t''))))]"
    by blast
  from kd(3) have f: "field_of d (ascii ''X-s'') (ascii ''x-s'') = PStr (ascii ''XYZ'')"
    "py_str demo_runtime (field_of d (ascii ''X-t'') (ascii ''x-t'')) = str_int 1700"
    by simp_all
  show ?thesis using g kd(1,2) f by blast
qed

text \<open>
  C4 as stated fails where the signing function answers with a list under \<open>X-s\<close>:
  the call succeeds at the first attempt and the value under \<open>x-s\<close> is that list, not a
  string. Only \<open>x_t\<close> goes through \<open>str()\<close>.
\<close>

theorem generate_sign_list_signature:
  "fst (generate_sign demo_runtime answers_list (PStr (ascii ''/api'')) PNone (PStr []) (PStr [])
         (PStr []) ready_state) =
     Inr (PDict [(ascii ''x-s'', PList [PInt 1]), (ascii ''x-t'', PStr (ascii ''1700''))])
   \<and> \<not> is_str (PList [PInt 1])"
proof -
  let ?u = "PStr (ascii ''/api'')"
  let ?r = "PDict [(ascii ''x-s'', PList [PInt 1]), (ascii ''x-t'', PStr (ascii ''1700''))]"
  have h3: "fst (attempt_body demo_runtime answers_list ?u PNone 0 ready_state) = Inr ?r"
    unfolding ready_attempt answers_list_def shape_result_def Let_def
    by (simp add: py_or_def dict_get_def dict_get_default_def ascii_def)
  have "fst (generate_sign demo_runtime answers_list ?u PNone (PStr []) (PStr []) (PStr [])
      ready_state) = Inr ?r"
    using generate_sign_first_success[of 0, OF _ _ h3] by simp
  then show ?thesis by simp
qed

section \<open>What the fetcher, the bootstrap and the views leave unchanged\<close>

lemma try_sources_globals:
  "playwright_instance (snd (try_sources w urls s)) = playwright_instance s \<and>
   browser_context (snd (try_sources w urls s)) = browser_context s \<and>
   context_page (snd (try_sources w urls s)) = context_page s \<and>
   global_a1 (snd (try_sources w urls s)) = global_a1 s"
  by (induction urls arbitrary: s)
     (auto simp: emit_def Let_def split: sum.splits option.splits prod.splits)

lemma try_sources_trace:
  "\<exists>t. trace (snd (try_sources w urls s)) = trace s @ t \<and>
       filter is_evaluate t = [] \<and> filter is_browser_event t = []"
proof (induction urls arbitrary: s)
  case Nil
  show ?case by simp
next
  case (Cons url rest)
  let ?s1 = "emit (HttpGet url) s"
  have t1: "trace ?s1 = trace s @ [HttpGet url]" by (simp add: emit_def)
  show ?case
  proof (cases "http_get w url")
    case (Inl e)
    from Cons.IH[of ?s1] obtain t where
      "trace (snd (try_sources w rest ?s1)) = trace ?s1 @ t"
      "filter is_evaluate t = []" "filter is_browser_event t = []" by blast
    then show ?thesis using Inl t1
      by (intro exI[of _ "HttpGet url # t"]) (simp add: Let_def)
  next
    case (Inr body)
    show ?thesis
    proof (cases "length body < 100")
      case True
      from Cons.IH[of ?s1] obtain t where
        "trace (snd (try_sources w rest ?s1)) = trace ?s1 @ t"
        "filter is_evaluate t = []" "filter is_browser_event t = []" by blast
      then show ?thesis using Inr True t1
        by (intro exI[of _ "HttpGet url # t"]) (simp add: Let_def)
    next
      case False
      let ?s2 = "emit (WriteFile body) ?s1"
      have t2: "trace ?s2 = trace s @ [HttpGet url, WriteFile body]" by (simp add: emit_def)
      show ?thesis
      proof (cases "write_result w")
        case None
        then show ?thesis using Inr False t2
          by (intro exI[of _ "[HttpGet url, WriteFile body]"]) (simp add: Let_def)
      next
        case (Some el)
        obtain e left where el: "el = (e, left)" by (cases el)
        let ?s3 = "?s2\<lparr>stealth_file := left\<rparr>"
        from Cons.IH[of ?s3] obtain t where
          "trace (snd (try_sources w rest ?s3)) = trace ?s3 @ t"
          "filter is_evaluate t = []" "filter is_browser_event t = []" by blast
        then show ?thesis using Inr False Some el t2
          by (intro exI[of _ "HttpGet url # WriteFile body # t"]) (simp add: Let_def)
      qed
    qed
  qed
qed

lemma download_globals:
  "playwright_instance (snd (download_stealth_js w s)) = playwright_instance s \<and>
   browser_context (snd (download_stealth_js w s)) = browser_context s \<and>
   context_page (snd (download_stealth_js w s)) = context_page s \<and>
   global_a1 (snd (download_stealth_js w s)) = global_a1 s"
  using try_sources_globals[of w cdn_urls s] by (simp add: download_stealth_js_def)

lemma download_trace:
  "\<exists>t. trace (snd (download_stealth_js w s)) = trace s @ t \<and>
       filter is_evaluate t = [] \<and> filter is_browser_event t = []"
  using try_sources_trace[of w cdn_urls s] by (simp add: download_stealth_js_def)

lemma open_page_a1:
  "global_a1 (snd (open_page w s)) \<noteq> global_a1 s \<Longrightarrow> context_page (snd (open_page w s)) \<noteq> None"
  by (auto simp: open_page_def capture_a1_def emit_def Let_def
           split: sum.splits option.splits)

lemma open_page_trace:
  "\<exists>t. trace (snd (open_page w s)) = trace s @ t \<and> filter is_evaluate t = []"
  by (auto simp: open_page_def capture_a1_def emit_def Let_def
           split: sum.splits option.splits)

lemma init_browser_a1:
  assumes "global_a1 (snd (init_browser w s)) \<noteq> global_a1 s"
  shows "context_page (snd (init_browser w s)) \<noteq> None"
proof -
  obtain path s0 where d: "download_stealth_js w s = (path, s0)" by force
  from download_globals[of w s] d have a0: "global_a1 s0 = global_a1 s" by simp
  have op: "\<And>s'::state. global_a1 (snd (open_page w s')) \<noteq> global_a1 s \<Longrightarrow>
      global_a1 s' = global_a1 s \<Longrightarrow> context_page (snd (open_page w s')) \<noteq> None"
    using open_page_a1 by metis
  show ?thesis
    using assms a0 unfolding init_browser_def d
    by (auto simp: Let_def emit_def split: sum.splits option.splits if_splits dest: op)
qed

lemma init_browser_trace:
  "\<exists>t. trace (snd (init_browser w s)) = trace s @ t \<and> filter is_evaluate t = []"
proof -
  obtain path s0 where d: "download_stealth_js w s = (path, s0)" by force
  from download_trace[of w s] d obtain t0 where
    t0: "trace s0 = trace s @ t0" "filter is_evaluate t0 = []" by auto
  have op: "\<And>s'::state. \<exists>u. trace s' = trace s @ u \<and> filter is_evaluate u = [] \<Longrightarrow>
     \<exists>t. trace (snd (open_page w s')) = trace s @ t \<and> filter is_evaluate t = []"
  proof -
    fix s' :: state assume "\<exists>u. trace s' = trace s @ u \<and> filter is_evaluate u = []"
    then obtain u where u: "trace s' = trace s @ u" "filter is_evaluate u = []" by blast
    from open_page_trace[of w s'] obtain t where
      "trace (snd (open_page w s')) = trace s' @ t" "filter is_evaluate t = []" by blast
    with u show "\<exists>t. trace (snd (open_page w s')) = trace s @ t \<and> filter is_evaluate t = []"
      by (intro exI[of _ "u @ t"]) simp
  qed
  show ?thesis
    unfolding init_browser_def d
    using t0
    by (auto simp: Let_def emit_def split: sum.splits option.splits if_splits intro!: op)
qed

lemma sign_endpoint_frame:
  "playwright_instance (snd (sign_endpoint rt ev json s)) = playwright_instance s \<and>
   browser_context (snd (sign_endpoint rt ev json s)) = browser_context s \<and>
   context_page (snd (sign_endpoint rt ev json s)) = context_page s \<and>
   global_a1 (snd (sign_endpoint rt ev json s)) = global_a1 s \<and>
   stealth_file (snd (sign_endpoint rt ev json s)) = stealth_file s"
proof -
  have g: "\<And>uri data a1 ws wid. \<exists>t. snd (generate_sign rt ev uri data a1 ws wid s) = s\<lparr>trace := trace s @ t\<rparr>"
    using generate_sign_frame by blast
  have "\<exists>t. snd (sign_endpoint rt ev json s) = s\<lparr>trace := trace s @ t\<rparr>"
  proof (cases json)
    case (Inl e)
    then show ?thesis by (intro exI[of _ "[]"]) (simp add: sign_endpoint_def)
  next
    case (Inr v)
    show ?thesis
    proof (cases "truthy v \<and> (\<exists>d. v = PDict d \<and> truthy (dict_get_default d (ascii ''uri'') (PStr [])))")
      case False
      then have "snd (sign_endpoint rt ev json s) = s"
        using Inr by (cases v) (auto simp: sign_endpoint_def Let_def)
      then show ?thesis by (intro exI[of _ "[]"]) simp
    next
      case True
      then obtain d where d: "v = PDict d" "truthy (dict_get_default d (ascii ''uri'') (PStr []))"
        by blast
      let ?g = "generate_sign rt ev (dict_get_default d (ascii ''uri'') (PStr []))
             (dict_get d (ascii ''data'')) (dict_get_default d (ascii ''a1'') (PStr []))
             (dict_get_default d (ascii ''web_session'') (PStr []))
             (dict_get_default d (ascii ''web_id'') (PStr [])) s"
      have "snd (sign_endpoint rt ev json s) = snd ?g"
        unfolding Inr d(1) sign_endpoint_calls_engine[OF d(2)]
        by (cases ?g) (auto split: sum.splits)
      with g show ?thesis by simp
    qed
  qed
  then obtain t where "snd (sign_endpoint rt ev json s) = s\<lparr>trace := trace s @ t\<rparr>" by blast
  then show ?thesis by simp
qed

lemma dispatch_frame:
  "playwright_instance (snd (dispatch rt req s)) = playwright_instance s \<and>
   browser_context (snd (dispatch rt req s)) = browser_context s \<and>
   context_page (snd (dispatch rt req s)) = context_page s \<and>
   global_a1 (snd (dispatch rt req s)) = global_a1 s \<and>
   stealth_file (snd (dispatch rt req s)) = stealth_file s"
  using sign_endpoint_frame by (cases req) simp_all

lemma handle_request_ready:
  "context_page s \<noteq> None \<Longrightarrow> handle_request rt w req s = dispatch rt req s"
  by (cases "context_page s") (simp_all add: handle_request_def ensure_browser_def)

lemma handle_request_ready_frame:
  assumes "context_page s \<noteq> None"
  shows "playwright_instance (snd (handle_request rt w req s)) = playwright_instance s \<and>
   browser_context (snd (handle_request rt w req s)) = browser_context s \<and>
   context_page (snd (handle_request rt w req s)) = context_page s \<and>
   global_a1 (snd (handle_request rt w req s)) = global_a1 s"
  using dispatch_frame[of rt req s] handle_request_ready[OF assms] by simp

lemma serve_ready:
  "context_page s \<noteq> None \<Longrightarrow>
   global_a1 (serve rt reqs s) = global_a1 s \<and> context_page (serve rt reqs s) = context_page s"
proof (induction reqs arbitrary: s)
  case Nil
  show ?case by simp
next
  case (Cons a reqs)
  obtain w req where a: "a = (w, req)" by (cases a)
  from handle_request_ready_frame[OF Cons.prems, of rt w req]
  have f: "context_page (snd (handle_request rt w req s)) = context_page s"
          "global_a1 (snd (handle_request rt w req s)) = global_a1 s" by simp_all
  with Cons.prems have "context_page (snd (handle_request rt w req s)) \<noteq> None" by simp
  from Cons.IH[OF this] f show ?case unfolding a by simp
qed

lemma handle_request_a1:
  assumes "global_a1 (snd (handle_request rt w req s)) \<noteq> global_a1 s"
  shows "context_page (snd (handle_request rt w req s)) \<noteq> None"
proof (cases "context_page s = None")
  case False
  with handle_request_ready_frame[of s rt w req] assms show ?thesis by simp
next
  case True
  obtain r s1 where i: "init_browser w s = (r, s1)" by force
  have fin: "global_a1 (snd (handle_request rt w req s)) = global_a1 s1 \<and>
             context_page (snd (handle_request rt w req s)) = context_page s1"
    using True i dispatch_frame[of rt req s1]
    by (cases r) (simp_all add: handle_request_def ensure_browser_def)
  with assms have "global_a1 (snd (init_browser w s)) \<noteq> global_a1 s" using i by simp
  from init_browser_a1[OF this] fin i show ?thesis by simp
qed

lemma ensure_browser_trace:
  "\<exists>t. trace (snd (ensure_browser w s)) = trace s @ t \<and> filter is_evaluate t = []"
  using init_browser_trace[of w s] by (simp add: ensure_browser_def)

section \<open>Claims on the signing engine and the sign endpoint\<close>

text \<open>
  C5: suppose the page exists, the first \<open>k\<close> attempts of a call fail and attempt \<open>k\<close>
  (counted from 0) gets a dict \<open>d\<close> from the page. If \<open>d\<close> has the signature under neither
  casing, the call returns at that attempt, with no pause and no further evaluation
  after it, and the result has the empty string under \<open>x-s\<close>. If \<open>d\<close> has the
  timestamp under neither casing and its signature is a string (the empty one when it
  is absent as well), the call returns at that attempt and the result has the empty
  string under \<open>x-t\<close>. \<open>sign_endpoint\<close> hands such a result on with status 200.
\<close>

theorem missing_fields_still_succeed:
  assumes "k < 10" and "context_page s = Some p"
      and "\<forall>i<k. isl (fst (attempt_body rt ev uri data i s))"
      and "ev k = Inr (PDict d)"
  shows "(map_of d (ascii ''X-s'') = None \<and> map_of d (ascii ''x-s'') = None \<longrightarrow>
            generate_sign rt ev uri data a1 ws wid s =
              (Inr (PDict [(ascii ''x-s'', PStr []),
                           (ascii ''x-t'',
                              PStr (py_str rt (field_of d (ascii ''X-t'') (ascii ''x-t''))))]),
               s\<lparr>trace := trace s @ retry_events (Some p) uri data k\<rparr>))
       \<and> (map_of d (ascii ''X-t'') = None \<and> map_of d (ascii ''x-t'') = None \<and>
          is_str (field_of d (ascii ''X-s'') (ascii ''x-s'')) \<longrightarrow>
            generate_sign rt ev uri data a1 ws wid s =
              (Inr (PDict [(ascii ''x-s'', field_of d (ascii ''X-s'') (ascii ''x-s'')),
                           (ascii ''x-t'', PStr [])]),
               s\<lparr>trace := trace s @ retry_events (Some p) uri data k\<rparr>))
       \<and> (uri = dict_get_default body (ascii ''uri'') (PStr []) \<and> truthy uri \<and>
          data = dict_get body (ascii ''data'') \<and> \<not> isl (shape_result rt (PDict d)) \<longrightarrow>
            fst (sign_endpoint rt ev (Inr (PDict body)) s) =
              (projr (shape_result rt (PDict d)), 200))"
proof -
  have ab: "fst (attempt_body rt ev uri data k s) = shape_result rt (PDict d)"
    using assms(2,4) by (simp add: attempt_body_def Let_def)
  have gen: "\<And>r a1 ws wid. shape_result rt (PDict d) = Inr r \<Longrightarrow>
      generate_sign rt ev uri data a1 ws wid s =
        (Inr r, s\<lparr>trace := trace s @ retry_events (Some p) uri data k\<rparr>)"
    using generate_sign_first_success[OF assms(1,3)] ab assms(2) by simp
  have A: "map_of d (ascii ''X-s'') = None \<and> map_of d (ascii ''x-s'') = None \<longrightarrow>
            generate_sign rt ev uri data a1 ws wid s =
              (Inr (PDict [(ascii ''x-s'', PStr []),
                           (ascii ''x-t'',
                              PStr (py_str rt (field_of d (ascii ''X-t'') (ascii ''x-t''))))]),
               s\<lparr>trace := trace s @ retry_events (Some p) uri data k\<rparr>)"
  proof
    assume h: "map_of d (ascii ''X-s'') = None \<and> map_of d (ascii ''x-s'') = None"
    then have f: "field_of d (ascii ''X-s'') (ascii ''x-s'') = PStr []"
      by (simp add: field_of_absent)
    show "generate_sign rt ev uri data a1 ws wid s =
              (Inr (PDict [(ascii ''x-s'', PStr []),
                           (ascii ''x-t'',
                              PStr (py_str rt (field_of d (ascii ''X-t'') (ascii ''x-t''))))]),
               s\<lparr>trace := trace s @ retry_events (Some p) uri data k\<rparr>)"
      by (rule gen) (simp add: shape_result_dict f)
  qed
  have B: "map_of d (ascii ''X-t'') = None \<and> map_of d (ascii ''x-t'') = None \<and>
          is_str (field_of d (ascii ''X-s'') (ascii ''x-s'')) \<longrightarrow>
            generate_sign rt ev uri data a1 ws wid s =
              (Inr (PDict [(ascii ''x-s'', field_of d (ascii ''X-s'') (ascii ''x-s'')),
                           (ascii ''x-t'', PStr [])]),
               s\<lparr>trace := trace s @ retry_events (Some p) uri data k\<rparr>)"
  proof
    assume h: "map_of d (ascii ''X-t'') = None \<and> map_of d (ascii ''x-t'') = None \<and>
          is_str (field_of d (ascii ''X-s'') (ascii ''x-s''))"
    then have f: "field_of d (ascii ''X-t'') (ascii ''x-t'') = PStr []"
      by (simp add: field_of_absent)
    from h obtain str where st: "field_of d (ascii ''X-s'') (ascii ''x-s'') = PStr str"
      by (cases "field_of d (ascii ''X-s'') (ascii ''x-s'')") simp_all
    show "generate_sign rt ev uri data a1 ws wid s =
              (Inr (PDict [(ascii ''x-s'', field_of d (ascii ''X-s'') (ascii ''x-s'')),
                           (ascii ''x-t'', PStr [])]),
               s\<lparr>trace := trace s @ retry_events (Some p) uri data k\<rparr>)"
      by (rule gen) (simp add: shape_result_dict f st)
  qed
  have C: "uri = dict_get_default body (ascii ''uri'') (PStr []) \<and> truthy uri \<and>
          data = dict_get body (ascii ''data'') \<and> \<not> isl (shape_result rt (PDict d)) \<longrightarrow>
            fst (sign_endpoint rt ev (Inr (PDict body)) s) =
              (projr (shape_result rt (PDict d)), 200)"
  proof
    assume h: "uri = dict_get_default body (ascii ''uri'') (PStr []) \<and> truthy uri \<and>
          data = dict_get body (ascii ''data'') \<and> \<not> isl (shape_result rt (PDict d))"
    then obtain r where r: "shape_result rt (PDict d) = Inr r"
      by (cases "shape_result rt (PDict d)") auto
    from h have tr: "truthy (dict_get_default body (ascii ''uri'') (PStr []))" by blast
    show "fst (sign_endpoint rt ev (Inr (PDict body)) s) =
              (projr (shape_result rt (PDict d)), 200)"
      unfolding sign_endpoint_calls_engine[OF tr]
      using gen[OF r] h r by simp
  qed
  from A B C show ?thesis by blast
qed

theorem missing_fields_still_succeed_witness:
  "generate_sign demo_runtime answers_empty (PStr (ascii ''/api'')) PNone (PStr []) (PStr []) (PStr [])
       ready_state =
     (Inr (PDict [(ascii ''x-s'', PStr []), (ascii ''x-t'', PStr [])]),
      ready_state\<lparr>trace := [Evaluate 3 (PStr (ascii ''/api'')) PNone]\<rparr>)
   \<and> fst (sign_endpoint demo_runtime answers_empty
            (Inr (PDict [(ascii ''uri'', PStr (ascii ''/api''))])) ready_state) =
       (PDict [(ascii ''x-s'', PStr []), (ascii ''x-t'', PStr [])], 200)"
proof -
  let ?u = "PStr (ascii ''/api'')"
  let ?b = "[(ascii ''uri'', ?u)]"
  have rs: "context_page ready_state = Some 3" "trace ready_state = []"
    by (simp_all add: ready_state_def)
  have h0: "\<forall>i<0::nat. isl (fst (attempt_body demo_runtime answers_empty ?u PNone i ready_state))"
    by simp
  have e: "answers_empty 0 = Inr (PDict [])" by (simp add: answers_empty_def)
  have f: "field_of [] (ascii ''X-s'') (ascii ''x-s'') = PStr []"
          "field_of [] (ascii ''X-t'') (ascii ''x-t'') = PStr []"
    by (simp_all add: field_of_absent)
  have sh: "shape_result demo_runtime (PDict []) =
      Inr (PDict [(ascii ''x-s'', PStr []), (ascii ''x-t'', PStr [])])"
    by (simp add: shape_result_dict f)
  have u: "?u = dict_get_default ?b (ascii ''uri'') (PStr []) \<and> truthy ?u \<and>
            PNone = dict_get ?b (ascii ''data'') \<and> \<not> isl (shape_result demo_runtime (PDict []))"
    by (simp add: dict_get_def dict_get_default_def ascii_def sh)
  note T = missing_fields_still_succeed[of 0 ready_state 3 demo_runtime answers_empty ?u PNone "[]"
      "PStr []" "PStr []" "PStr []" ?b, OF _ rs(1) h0 e]
  from T u show ?thesis by (simp add: f rs retry_events_def attempt_events_def sh)
qed

text \<open>
  C3 at the inputs where the code departs from it, and beside them. \<open>request.get_json()\<close>
  is called without \<open>silent\<close>, inside the \<open>try\<close>: for a request that carries no JSON body
  it raises, and whatever it raises, the \<open>except\<close> clause answers 500 with \<open>error\<close>,
  \<open>error_type\<close>, \<open>success: false\<close> and \<open>hint\<close>, not the 400 of the branch
  \<open>if not json_data\<close>. That branch answers 400 only when a body was parsed and its value
  is falsy (\<open>null\<close>, an empty object). A body that is a non-empty list has no \<open>uri\<close>
  either, and gets 500 from the \<open>AttributeError\<close> of \<open>json_data.get\<close>. An object without
  \<open>uri\<close>, or with an empty one, gets the 400 the claim states, whatever its other
  fields. In each case the state is returned as it was found: \<open>generate_sign\<close> is not
  called.
\<close>

theorem sign_endpoint_body_cases:
  "sign_endpoint rt ev (Inl e) s =
     ((PDict [(ascii ''error'', PStr (emsg e)),
              (ascii ''error_type'', PStr (etype e)),
              (ascii ''success'', PBool False),
              (ascii ''hint'', PStr msg_hint)], 500), s)
   \<and> sign_endpoint rt ev (Inr PNone) s =
     ((PDict [(ascii ''error'', PStr (ascii ''Request body is required'')),
              (ascii ''success'', PBool False)], 400), s)
   \<and> sign_endpoint rt ev (Inr (PDict [])) s =
     ((PDict [(ascii ''error'', PStr (ascii ''Request body is required'')),
              (ascii ''success'', PBool False)], 400), s)
   \<and> sign_endpoint rt ev (Inr (PList (x # xs))) s =
     ((PDict [(ascii ''error'',
                 PStr ([39] @ ascii ''list'' @ [39] @ ascii '' object has no attribute ''
                       @ [39] @ ascii ''get'' @ [39])),
              (ascii ''error_type'', PStr (ascii ''AttributeError'')),
              (ascii ''success'', PBool False),
              (ascii ''hint'', PStr msg_hint)], 500), s)
   \<and> sign_endpoint rt ev
         (Inr (PDict [(ascii ''data'', x), (ascii ''a1'', y), (ascii ''web_session'', z)])) s =
     ((PDict [(ascii ''error'', PStr (ascii ''uri parameter is required'')),
              (ascii ''success'', PBool False)], 400), s)
   \<and> sign_endpoint rt ev (Inr (PDict [(ascii ''uri'', PStr []), (ascii ''data'', x)])) s =
     ((PDict [(ascii ''error'', PStr (ascii ''uri parameter is required'')),
              (ascii ''success'', PBool False)], 400), s)"
proof (intro conjI)
  show "sign_endpoint rt ev (Inl e) s =
     ((PDict [(ascii ''error'', PStr (emsg e)),
              (ascii ''error_type'', PStr (etype e)),
              (ascii ''success'', PBool False),
              (ascii ''hint'', PStr msg_hint)], 500), s)"
    by (simp add: sign_endpoint_def sign_failure_def)
  show "sign_endpoint rt ev (Inr PNone) s =
     ((PDict [(ascii ''error'', PStr (ascii ''Request body is required'')),
              (ascii ''success'', PBool False)], 400), s)"
    by (simp add: sign_endpoint_def bad_request_def)
  show "sign_endpoint rt ev (Inr (PDict [])) s =
     ((PDict [(ascii ''error'', PStr (ascii ''Request body is required'')),
              (ascii ''success'', PBool False)], 400), s)"
    by (simp add: sign_endpoint_def bad_request_def)
  show "sign_endpoint rt ev (Inr (PList (x # xs))) s =
     ((PDict [(ascii ''error'',
                 PStr ([39] @ ascii ''list'' @ [39] @ ascii '' object has no attribute ''
                       @ [39] @ ascii ''get'' @ [39])),
              (ascii ''error_type'', PStr (ascii ''AttributeError'')),
              (ascii ''success'', PBool False),
              (ascii ''hint'', PStr msg_hint)], 500), s)"
    by (simp add: sign_endpoint_def sign_failure_def)
  have u1: "\<not> truthy (dict_get_default
      [(ascii ''data'', x), (ascii ''a1'', y), (ascii ''web_session'', z)] (ascii ''uri'') (PStr []))"
    by (simp add: dict_get_default_def ascii_def)
  show "sign_endpoint rt ev
         (Inr (PDict [(ascii ''data'', x), (ascii ''a1'', y), (ascii ''web_session'', z)])) s =
     ((PDict [(ascii ''error'', PStr (ascii ''uri parameter is required'')),
              (ascii ''success'', PBool False)], 400), s)"
    using u1 by (simp add: sign_endpoint_def bad_request_def Let_def)
  have u2: "\<not> truthy (dict_get_default
      [(ascii ''uri'', PStr []), (ascii ''data'', x)] (ascii ''uri'') (PStr []))"
    by (simp add: dict_get_default_def)
  show "sign_endpoint rt ev (Inr (PDict [(ascii ''uri'', PStr []), (ascii ''data'', x)])) s =
     ((PDict [(ascii ''error'', PStr (ascii ''uri parameter is required'')),
              (ascii ''success'', PBool False)], 400), s)"
    using u2 by (simp add: sign_endpoint_def bad_request_def Let_def)
qed

text \<open>
  C10: when \<open>request.get_json()\<close> raises \<open>e\<close>, the \<open>except\<close> clause of \<open>sign_endpoint\<close>
  answers 500 with the fields \<open>error\<close> (\<open>str(e)\<close>), \<open>error_type\<close> (the name of its type),
  \<open>success: false\<close> and \<open>hint\<close>; the status is not 400. Through the application this is
  the response of the request whenever the readiness hook returns, and nothing is
  evaluated in the page.
\<close>

theorem sign_endpoint_parse_failure:
  "sign_endpoint rt ev (Inl e) s =
     ((PDict [(ascii ''error'', PStr (emsg e)),
              (ascii ''error_type'', PStr (etype e)),
              (ascii ''success'', PBool False),
              (ascii ''hint'', PStr msg_hint)], 500), s)
   \<and> (fst (ensure_browser w s) = None \<longrightarrow>
        fst (handle_request rt w (PostSign ev (Inl e)) s) =
          (PDict [(ascii ''error'', PStr (emsg e)),
                  (ascii ''error_type'', PStr (etype e)),
                  (ascii ''success'', PBool False),
                  (ascii ''hint'', PStr msg_hint)], 500))
   \<and> snd (fst (sign_endpoint rt ev (Inl e) s)) \<noteq> 400
   \<and> filter is_evaluate (trace (snd (handle_request rt w (PostSign ev (Inl e)) s))) =
       filter is_evaluate (trace s)"
proof (intro conjI impI)
  show a: "sign_endpoint rt ev (Inl e) s =
     ((PDict [(ascii ''error'', PStr (emsg e)),
              (ascii ''error_type'', PStr (etype e)),
              (ascii ''success'', PBool False),
              (ascii ''hint'', PStr msg_hint)], 500), s)"
    by (simp add: sign_endpoint_def sign_failure_def)
  then show "snd (fst (sign_endpoint rt ev (Inl e) s)) \<noteq> 400" by simp
  obtain r s1 where en: "ensure_browser w s = (r, s1)" by force
  {
    assume "fst (ensure_browser w s) = None"
    with en show "fst (handle_request rt w (PostSign ev (Inl e)) s) =
          (PDict [(ascii ''error'', PStr (emsg e)),
                  (ascii ''error_type'', PStr (etype e)),
                  (ascii ''success'', PBool False),
                  (ascii ''hint'', PStr msg_hint)], 500)"
      by (simp add: handle_request_def sign_endpoint_def sign_failure_def)
  }
  have "snd (handle_request rt w (PostSign ev (Inl e)) s) = s1"
    using en by (cases r) (simp_all add: handle_request_def sign_endpoint_def)
  moreover from ensure_browser_trace[of w s] en obtain t where
    "trace s1 = trace s @ t" "filter is_evaluate t = []" by auto
  ultimately show "filter is_evaluate (trace (snd (handle_request rt w (PostSign ev (Inl e)) s))) =
       filter is_evaluate (trace s)" by simp
qed

theorem sign_endpoint_parse_failure_witness:
  "handle_request demo_runtime world_ok (PostSign always_fails (Inl boom)) ready_state =
     ((PDict [(ascii ''error'', PStr (ascii ''boom'')),
              (ascii ''error_type'', PStr (ascii ''Error'')),
              (ascii ''success'', PBool False),
              (ascii ''hint'', PStr msg_hint)], 500), ready_state)"
proof -
  have en: "ensure_browser world_ok ready_state = (None, ready_state)"
    by (simp add: ensure_browser_def ready_state_def)
  have hr: "handle_request demo_runtime world_ok (PostSign always_fails (Inl boom)) ready_state
      = sign_endpoint demo_runtime always_fails (Inl boom) ready_state"
    by (simp add: handle_request_ready ready_state_def)
  from sign_endpoint_parse_failure[of demo_runtime always_fails boom ready_state world_ok] en hr
  show ?thesis by (simp add: boom_def)
qed

text \<open>
  C8: \<open>generate_sign\<close>, whether it returns or raises, leaves \<open>playwright_instance\<close>,
  \<open>browser_context\<close>, \<open>context_page\<close>, \<open>global_a1\<close> and the asset file as they were, and the
  effects it adds contain no navigation, no reading of cookies, no other browser
  bootstrap step and no download. The identity token is set once: a request handled
  while a page exists changes neither the token nor the handles; a run of
  \<open>init_browser\<close> that changes the token leaves the page set; and once a request has
  changed the token, no later request of the server loop changes it again.
\<close>

theorem generate_sign_session_frame:
  "playwright_instance (snd (generate_sign rt ev uri data a1 ws wid s)) = playwright_instance s
   \<and> browser_context (snd (generate_sign rt ev uri data a1 ws wid s)) = browser_context s
   \<and> context_page (snd (generate_sign rt ev uri data a1 ws wid s)) = context_page s
   \<and> global_a1 (snd (generate_sign rt ev uri data a1 ws wid s)) = global_a1 s
   \<and> stealth_file (snd (generate_sign rt ev uri data a1 ws wid s)) = stealth_file s
   \<and> (\<exists>t. trace (snd (generate_sign rt ev uri data a1 ws wid s)) = trace s @ t \<and>
          filter is_browser_event t = [] \<and> filter is_http_get t = [])
   \<and> (context_page s \<noteq> None \<longrightarrow>
        global_a1 (snd (handle_request rt w req s)) = global_a1 s \<and>
        context_page (snd (handle_request rt w req s)) = context_page s \<and>
        browser_context (snd (handle_request rt w req s)) = browser_context s \<and>
        playwright_instance (snd (handle_request rt w req s)) = playwright_instance s)
   \<and> (global_a1 (snd (init_browser w s)) \<noteq> global_a1 s \<longrightarrow>
        context_page (snd (init_browser w s)) \<noteq> None)
   \<and> (global_a1 (snd (handle_request rt w req s)) \<noteq> global_a1 s \<longrightarrow>
        global_a1 (serve rt reqs (snd (handle_request rt w req s))) =
          global_a1 (snd (handle_request rt w req s)))"
proof -
  obtain t where t: "snd (generate_sign rt ev uri data a1 ws wid s) = s\<lparr>trace := trace s @ t\<rparr>"
    "set t \<subseteq> insert (Sleep 500) (set (attempt_events (context_page s) uri data))"
    using generate_sign_frame[of rt ev uri data a1 ws wid s] by blast
  have ok: "\<And>e. e \<in> set t \<Longrightarrow> \<not> is_browser_event e \<and> \<not> is_http_get e"
    using t(2) by (auto simp: attempt_events_def split: option.splits)
  have tr: "\<exists>t. trace (snd (generate_sign rt ev uri data a1 ws wid s)) = trace s @ t \<and>
          filter is_browser_event t = [] \<and> filter is_http_get t = []"
    using t(1) ok by (intro exI[of _ t]) (simp add: filter_empty_conv)
  have once: "global_a1 (snd (handle_request rt w req s)) \<noteq> global_a1 s \<longrightarrow>
        global_a1 (serve rt reqs (snd (handle_request rt w req s))) =
          global_a1 (snd (handle_request rt w req s))"
    using handle_request_a1[of rt w req s] serve_ready[of "snd (handle_request rt w req s)" rt reqs]
    by blast
  show ?thesis
    using t(1) tr once handle_request_ready_frame[of s rt w req] init_browser_a1[of w s]
    by simp
qed


lemma download_all_fail_initial:
  "download_stealth_js world_ok initial_state =
     (None, initial_state\<lparr>trace := map HttpGet cdn_urls\<rparr>)"
  by (simp add: download_stealth_js_def initial_state_def cdn_urls_def world_ok_def emit_def
      Let_def)

lemma init_browser_ok_initial:
  "init_browser world_ok initial_state =
     (None,
      \<lparr>playwright_instance = Some 1, browser_context = Some 2, context_page = Some 3,
       global_a1 = ascii ''a1cookie'', stealth_file = None,
       trace = map HttpGet cdn_urls @
         [StartPlaywright, Launch, NewContext, NewPage, Goto home_url, Sleep 1000, ReadCookies]\<rparr>)"
  unfolding init_browser_def download_all_fail_initial
  by (simp add: initial_state_def world_ok_def emit_def open_page_def capture_a1_def Let_def
      ascii_def)

theorem generate_sign_session_frame_witness:
  "global_a1 (snd (handle_request demo_runtime world_ok GetA1 initial_state)) = ascii ''a1cookie''
   \<and> global_a1 initial_state = []
   \<and> global_a1 (serve demo_runtime
        [(world_goto_fails, PostSign always_fails (Inr (PDict [(ascii ''uri'', PStr (ascii ''/api''))]))),
         (world_ok, GetA1)]
        (snd (handle_request demo_runtime world_ok GetA1 initial_state))) = ascii ''a1cookie''
   \<and> global_a1 (snd (handle_request demo_runtime world_ok
        (PostSign always_fails (Inr (PDict [(ascii ''uri'', PStr (ascii ''/api''))]))) ready_state)) =
       ascii ''a1cookie''"
proof -
  let ?req = "PostSign always_fails (Inr (PDict [(ascii ''uri'', PStr (ascii ''/api''))]))"
  let ?reqs = "[(world_goto_fails, ?req), (world_ok, GetA1)]"
  have h: "snd (handle_request demo_runtime world_ok GetA1 initial_state) =
      snd (init_browser world_ok initial_state)"
  proof -
    have "context_page initial_state = None" by (simp add: initial_state_def)
    then show ?thesis
      by (simp add: handle_request_def ensure_browser_def init_browser_ok_initial)
  qed
  have a: "global_a1 (snd (handle_request demo_runtime world_ok GetA1 initial_state)) =
      ascii ''a1cookie''"
    unfolding h init_browser_ok_initial by simp
  have b: "global_a1 initial_state = []" by (simp add: initial_state_def)
  have ne: "ascii ''a1cookie'' \<noteq> []" by (simp add: ascii_def)
  have r: "context_page ready_state \<noteq> None" "global_a1 ready_state = ascii ''a1cookie''"
    by (simp_all add: ready_state_def)
  from generate_sign_session_frame[of demo_runtime always_fails PNone PNone PNone PNone PNone
      initial_state world_ok GetA1 ?reqs] a b ne
  have c: "global_a1 (serve demo_runtime ?reqs
        (snd (handle_request demo_runtime world_ok GetA1 initial_state))) = ascii ''a1cookie''"
    by simp
  from generate_sign_session_frame[of demo_runtime always_fails PNone PNone PNone PNone PNone
      ready_state world_ok ?req "[]"] r
  have d: "global_a1 (snd (handle_request demo_runtime world_ok ?req ready_state)) =
       ascii ''a1cookie''"
    by simp
  from a b c d show ?thesis by blast
qed

section \<open>Claims on the asset fetcher and on session bootstrap\<close>

lemma try_sources_all_unusable:
  "list_all (mirror_unusable w) urls \<Longrightarrow>
   try_sources w urls s = (None, s\<lparr>trace := trace s @ map HttpGet urls\<rparr>)"
proof (induction urls arbitrary: s)
  case Nil
  show ?case by simp
next
  case (Cons url rest)
  then have u: "mirror_unusable w url" and r: "list_all (mirror_unusable w) rest" by simp_all
  from u have step: "try_sources w (url # rest) s = try_sources w rest (emit (HttpGet url) s)"
    by (auto simp: mirror_unusable_def Let_def split: sum.splits)
  show ?case unfolding step Cons.IH[OF r] by (simp add: emit_def)
qed

text \<open>
  C9: when the file \<open>stealth.min.js\<close> exists, \<open>download_stealth_js\<close> returns its path and
  leaves the state as it was: no request is made and the content of the file is not
  written. When the file does not exist and every mirror of the list raises or gives a
  body of fewer than 100 characters, it returns \<open>None\<close>, having made one request to each
  mirror in order and written nothing. It returns in every case: the function has no
  way to raise.
\<close>

theorem download_stealth_js_cached_or_absent:
  "(stealth_file s \<noteq> None \<longrightarrow> download_stealth_js w s = (Some stealth_js_path, s))
   \<and> (stealth_file s = None \<and> list_all (mirror_unusable w) cdn_urls \<longrightarrow>
        download_stealth_js w s = (None, s\<lparr>trace := trace s @ map HttpGet cdn_urls\<rparr>))"
  using try_sources_all_unusable[of w cdn_urls s]
  by (simp add: download_stealth_js_def)

theorem download_stealth_js_cached_or_absent_witness:
  "download_stealth_js world_small_bodies ready_state = (Some stealth_js_path, ready_state)
   \<and> download_stealth_js world_small_bodies initial_state =
       (None, initial_state\<lparr>trace := map HttpGet cdn_urls\<rparr>)
   \<and> download_stealth_js world_ok initial_state =
       (None, initial_state\<lparr>trace := map HttpGet cdn_urls\<rparr>)"
proof -
  have f: "stealth_file ready_state \<noteq> None" "stealth_file initial_state = None"
    "trace initial_state = []"
    by (simp_all add: ready_state_def initial_state_def)
  have a: "list_all (mirror_unusable world_small_bodies) cdn_urls"
    by (simp add: mirror_unusable_def world_small_bodies_def world_ok_def cdn_urls_def ascii_def)
  have b: "list_all (mirror_unusable world_ok) cdn_urls"
    by (simp add: mirror_unusable_def world_ok_def cdn_urls_def)
  from download_stealth_js_cached_or_absent[of ready_state world_small_bodies]
       download_stealth_js_cached_or_absent[of initial_state world_small_bodies]
       download_stealth_js_cached_or_absent[of initial_state world_ok] f a b
  show ?thesis by simp
qed

lemma download_unusable_initial:
  assumes "list_all (mirror_unusable w) cdn_urls"
  shows "download_stealth_js w initial_state =
     (None, initial_state\<lparr>trace := map HttpGet cdn_urls\<rparr>)"
  using try_sources_all_unusable[OF assms, of initial_state]
  by (simp add: download_stealth_js_def initial_state_def)

lemma worlds_unusable:
  "list_all (mirror_unusable world_goto_fails) cdn_urls"
  "list_all (mirror_unusable world_launch_fails) cdn_urls"
  "list_all (mirror_unusable world_start_fails) cdn_urls"
  by (simp_all add: mirror_unusable_def world_goto_fails_def world_launch_fails_def
      world_start_fails_def world_ok_def cdn_urls_def)

lemma init_browser_goto_fails_initial:
  "init_browser world_goto_fails initial_state =
     (Some boom,
      \<lparr>playwright_instance = Some 1, browser_context = Some 2, context_page = Some 3,
       global_a1 = [], stealth_file = None,
       trace = map HttpGet cdn_urls @
         [StartPlaywright, Launch, NewContext, NewPage, Goto home_url]\<rparr>)"
  unfolding init_browser_def download_unusable_initial[OF worlds_unusable(1)]
  by (simp add: initial_state_def world_goto_fails_def world_ok_def emit_def open_page_def
      Let_def)


lemma init_browser_start_fails_initial:
  "init_browser world_start_fails initial_state =
     (Some boom, initial_state\<lparr>trace := map HttpGet cdn_urls @ [StartPlaywright]\<rparr>)"
  unfolding init_browser_def download_unusable_initial[OF worlds_unusable(3)]
  by (simp add: initial_state_def world_start_fails_def world_ok_def emit_def Let_def)

lemma init_browser_returns_page:
  "fst (init_browser w s) = None \<Longrightarrow> context_page (snd (init_browser w s)) \<noteq> None"
proof -
  have op: "\<And>s'::state. fst (open_page w s') = None \<Longrightarrow> context_page (snd (open_page w s')) \<noteq> None"
    by (auto simp: open_page_def capture_a1_def emit_def Let_def split: sum.splits option.splits)
  obtain path s0 where d: "download_stealth_js w s = (path, s0)" by force
  assume "fst (init_browser w s) = None"
  then show ?thesis
    unfolding init_browser_def d
    by (auto simp: Let_def split: sum.splits option.splits if_splits dest: op)
qed

lemma init_browser_early_failure:
  assumes "context_page s = None"
      and "isl (start_result w) \<or> launch_result w \<noteq> None \<or> isl (new_context_result w) \<or>
           isl (new_page_result w)"
  shows "fst (init_browser w s) \<noteq> None \<and> context_page (snd (init_browser w s)) = None \<and>
         ensure_browser w' (snd (init_browser w s)) = init_browser w' (snd (init_browser w s))"
proof -
  obtain path s0 where d: "download_stealth_js w s = (path, s0)" by force
  from download_globals[of w s] d assms(1) have c0: "context_page s0 = None" by simp
  have "fst (init_browser w s) \<noteq> None \<and> context_page (snd (init_browser w s)) = None"
    using assms(2) c0 unfolding init_browser_def d
    by (auto simp: Let_def emit_def open_page_def split: sum.splits option.splits if_splits)
  then show ?thesis by (simp add: ensure_browser_def)
qed

text \<open>
  C2 fails on the code when the navigation raises. \<open>context_page\<close> is assigned when
  \<open>new_page()\<close> returns, before \<open>goto\<close>: started in a fresh process, \<open>init_browser\<close> raises
  and leaves the page, the context and the Playwright handle set and no identity token.
  The readiness hook of the next request finds a page and does not run \<open>init_browser\<close>
  again, \<open>health_check\<close> answers 200, and \<open>/a1\<close> gives the empty token. The lemma before
  it shows that a failure of an earlier step leaves the page unset, so that the hook
  does run \<open>init_browser\<close> again.
\<close>

theorem init_browser_navigation_failure:
  "init_browser world_goto_fails initial_state =
     (Some boom,
      \<lparr>playwright_instance = Some 1, browser_context = Some 2, context_page = Some 3,
       global_a1 = [], stealth_file = None,
       trace = map HttpGet cdn_urls @
         [StartPlaywright, Launch, NewContext, NewPage, Goto home_url]\<rparr>)
   \<and> ensure_browser world_ok (snd (init_browser world_goto_fails initial_state)) =
       (None, snd (init_browser world_goto_fails initial_state))
   \<and> snd (health_check PNone (snd (init_browser world_goto_fails initial_state))) = 200
   \<and> handle_request demo_runtime world_ok GetA1 (snd (init_browser world_goto_fails initial_state)) =
       ((PDict [(ascii ''a1'', PStr [])], 200), snd (init_browser world_goto_fails initial_state))"
proof -
  let ?s = "snd (init_browser world_goto_fails initial_state)"
  have p: "context_page ?s = Some 3" "global_a1 ?s = []"
    by (simp_all add: init_browser_goto_fails_initial)
  have e: "ensure_browser world_ok ?s = (None, ?s)" using p by (simp add: ensure_browser_def)
  have h: "snd (health_check PNone ?s) = 200" using p by (simp add: health_check_def)
  have r: "handle_request demo_runtime world_ok GetA1 ?s = ((PDict [(ascii ''a1'', PStr [])], 200), ?s)"
    using p by (simp add: handle_request_def e get_a1_def)
  from init_browser_goto_fails_initial e h r show ?thesis by blast
qed

section \<open>Claims on requests and the readiness hook\<close>





text \<open>
  The view and the request, in general. \<open>health_check\<close> answers 200 with \<open>healthy\<close> when a
  session page exists and 503 with \<open>initializing\<close> when none exists. A GET /health
  request passes the \<open>before_request\<close> hook first: with a page it gets the view's 200;
  without one the hook runs \<open>init_browser\<close>, and the response is the view's answer in the
  state after it when it returns, and the answer of the handler for 500 when it raises.
  So the status of the response is 200 when the hook returns and 500 when it raises.
\<close>

lemma health_check_and_readiness:
  "(context_page s \<noteq> None \<longrightarrow>
      health_check now s =
        (PDict [(ascii ''status'', PStr (ascii ''healthy'')),
                (ascii ''browser_ready'', PBool True),
                (ascii ''a1'',
                   PStr (if global_a1 s \<noteq> [] then take 20 (global_a1 s) @ ascii ''...'' else [])),
                (ascii ''timestamp'', now)], 200)
      \<and> handle_request rt w (GetHealth now) s = (health_check now s, s))
   \<and> (context_page s = None \<longrightarrow>
      health_check now s =
        (PDict [(ascii ''status'', PStr (ascii ''initializing'')),
                (ascii ''browser_ready'', PBool False),
                (ascii ''a1'',
                   PStr (if global_a1 s \<noteq> [] then take 20 (global_a1 s) @ ascii ''...'' else [])),
                (ascii ''timestamp'', now)], 503)
      \<and> handle_request rt w (GetHealth now) s =
          (case init_browser w s of
             (None, s') \<Rightarrow> (health_check now s', s')
           | (Some e, s') \<Rightarrow> (internal_error (unhandled_str rt e), s')))
   \<and> snd (fst (handle_request rt w (GetHealth now) s)) =
       (if fst (ensure_browser w s) = None then 200 else 500)"
proof (intro conjI impI)
  assume p: "context_page s \<noteq> None"
  then show "health_check now s =
        (PDict [(ascii ''status'', PStr (ascii ''healthy'')),
                (ascii ''browser_ready'', PBool True),
                (ascii ''a1'',
                   PStr (if global_a1 s \<noteq> [] then take 20 (global_a1 s) @ ascii ''...'' else [])),
                (ascii ''timestamp'', now)], 200)"
    by (simp add: health_check_def)
  show "handle_request rt w (GetHealth now) s = (health_check now s, s)"
    using p by (simp add: handle_request_ready)
next
  assume p: "context_page s = None"
  then show "health_check now s =
        (PDict [(ascii ''status'', PStr (ascii ''initializing'')),
                (ascii ''browser_ready'', PBool False),
                (ascii ''a1'',
                   PStr (if global_a1 s \<noteq> [] then take 20 (global_a1 s) @ ascii ''...'' else [])),
                (ascii ''timestamp'', now)], 503)"
    by (simp add: health_check_def)
  show "handle_request rt w (GetHealth now) s =
          (case init_browser w s of
             (None, s') \<Rightarrow> (health_check now s', s')
           | (Some e, s') \<Rightarrow> (internal_error (unhandled_str rt e), s'))"
    using p by (auto simp: handle_request_def ensure_browser_def split: prod.splits option.splits)
next
  obtain r s1 where e: "ensure_browser w s = (r, s1)" by force
  show "snd (fst (handle_request rt w (GetHealth now) s)) =
       (if fst (ensure_browser w s) = None then 200 else 500)"
  proof (cases r)
    case (Some x)
    then show ?thesis using e by (simp add: handle_request_def internal_error_def)
  next
    case None
    have "context_page s1 \<noteq> None"
    proof (cases "context_page s = None")
      case True
      with e None have "fst (init_browser w s) = None" "s1 = snd (init_browser w s)"
        by (simp_all add: ensure_browser_def)
      with init_browser_returns_page[of w s] show ?thesis by simp
    next
      case False
      with e show ?thesis by (simp add: ensure_browser_def)
    qed
    then show ?thesis using e None by (simp add: handle_request_def health_check_def)
  qed
qed

lemma health_request_never_503:
  "snd (fst (handle_request rt w (GetHealth now) s)) \<noteq> 503"
  using health_check_and_readiness[of s now rt w] by (simp split: if_splits)

text \<open>
  C7 at the input where the code departs from it: a GET /health that arrives in a fresh
  process, before a session page exists. Called on that state, the view \<open>health_check\<close>
  answers 503 with \<open>initializing\<close> and \<open>browser_ready\<close> false, as the claim says. The request
  does not get that answer: the hook bootstraps the session first, and the response is
  200 with \<open>healthy\<close> when the bootstrap goes through and 500 when the start of Playwright
  raises. By the lemma before it no request gets 503 in any state.
\<close>

theorem health_request_before_page:
  "context_page initial_state = None
   \<and> health_check (PFloat (ascii ''1700000000.5'')) initial_state =
       (PDict [(ascii ''status'', PStr (ascii ''initializing'')),
               (ascii ''browser_ready'', PBool False),
               (ascii ''a1'', PStr []),
               (ascii ''timestamp'', PFloat (ascii ''1700000000.5''))], 503)
   \<and> fst (handle_request demo_runtime world_ok (GetHealth (PFloat (ascii ''1700000000.5'')))
            initial_state) =
       (PDict [(ascii ''status'', PStr (ascii ''healthy'')),
               (ascii ''browser_ready'', PBool True),
               (ascii ''a1'', PStr (ascii ''a1cookie...'')),
               (ascii ''timestamp'', PFloat (ascii ''1700000000.5''))], 200)
   \<and> snd (fst (handle_request demo_runtime world_start_fails
                 (GetHealth (PFloat (ascii ''1700000000.5''))) initial_state)) = 500"
proof -
  let ?now = "PFloat (ascii ''1700000000.5'')"
  have c: "context_page initial_state = None" by (simp add: initial_state_def)
  have v: "health_check ?now initial_state =
       (PDict [(ascii ''status'', PStr (ascii ''initializing'')),
               (ascii ''browser_ready'', PBool False),
               (ascii ''a1'', PStr []),
               (ascii ''timestamp'', ?now)], 503)"
    by (simp add: health_check_def initial_state_def)
  have a: "handle_request demo_runtime world_ok (GetHealth ?now) initial_state =
      (health_check ?now (snd (init_browser world_ok initial_state)),
       snd (init_browser world_ok initial_state))"
    using c by (simp add: handle_request_def ensure_browser_def init_browser_ok_initial)
  have ok: "fst (handle_request demo_runtime world_ok (GetHealth ?now) initial_state) =
       (PDict [(ascii ''status'', PStr (ascii ''healthy'')),
               (ascii ''browser_ready'', PBool True),
               (ascii ''a1'', PStr (ascii ''a1cookie...'')),
               (ascii ''timestamp'', ?now)], 200)"
    unfolding a by (simp add: init_browser_ok_initial health_check_def ascii_def)
  have b: "fst (handle_request demo_runtime world_start_fails (GetHealth ?now) initial_state) =
      internal_error (unhandled_str demo_runtime boom)"
    using c by (simp add: handle_request_def ensure_browser_def init_browser_start_fails_initial)
  have bad: "snd (fst (handle_request demo_runtime world_start_fails (GetHealth ?now)
      initial_state)) = 500"
    unfolding b by (simp add: internal_error_def)
  from c v ok bad show ?thesis by blast
qed

end
